theory Spec2Isabelle
  imports Complex_Main "HOL-Library.AList"
begin

section \<open>Python strings\<close>

text \<open>
  The script \<^verbatim>\<open>linear_fetch.py\<close> works on Python \<^verbatim>\<open>str\<close> values. A \<^typ>\<open>string\<close> here is
  a list of code points below 256 (Latin-1), and every string method the script calls is
  written out for that range: on it \<^verbatim>\<open>str.isspace\<close>, \<^verbatim>\<open>str.lower\<close>, \<^verbatim>\<open>str.splitlines\<close>
  and the regular expression class \<^verbatim>\<open>\d\<close> are exactly the functions below. Code points
  from 256 on are outside the model.
\<close>

definition is_space :: "char \<Rightarrow> bool" where
  \<comment> \<open>\<^verbatim>\<open>str.isspace\<close> of one character: TAB, LF, VT, FF, CR, FS, GS, RS, US, SPACE, NEL, NBSP.\<close>
  "is_space c = (of_char c \<in> {9, 10, 11, 12, 13, 28, 29, 30, 31, 32, 133, 160 :: nat})"

definition strip_with :: "(char \<Rightarrow> bool) \<Rightarrow> string \<Rightarrow> string" where
  \<comment> \<open>Remove every leading and every trailing character that satisfies \<open>P\<close>.\<close>
  "strip_with P s = rev (dropWhile P (rev (dropWhile P s)))"

definition strip :: "string \<Rightarrow> string" where
  \<comment> \<open>\<^verbatim>\<open>s.strip()\<close>\<close>
  "strip s = strip_with is_space s"

definition strip_chars :: "string \<Rightarrow> string \<Rightarrow> string" where
  \<comment> \<open>\<^verbatim>\<open>s.strip(chars)\<close>: the argument is a set of characters, not a prefix or suffix.\<close>
  "strip_chars chars s = strip_with (\<lambda>c. c \<in> set chars) s"

definition lower_char :: "char \<Rightarrow> char" where
  \<comment> \<open>A-Z and the Latin-1 capitals (all of 0xC0-0xDE but the multiplication sign) move up by 32.\<close>
  "lower_char c = (let n = of_char c :: nat in
     if (65 \<le> n \<and> n \<le> 90) \<or> (192 \<le> n \<and> n \<le> 222 \<and> n \<noteq> 215)
     then char_of (n + 32) else c)"

definition lower :: "string \<Rightarrow> string" where
  \<comment> \<open>\<^verbatim>\<open>s.lower()\<close>\<close>
  "lower s = map lower_char s"

definition upper_char :: "char \<Rightarrow> char" where
  \<comment> \<open>Uppercasing of an ASCII character; the script uppercases only text matched by
      \<^verbatim>\<open>[A-Za-z][A-Za-z0-9_]*\<close>, where \<^verbatim>\<open>str.upper\<close> is this function.\<close>
  "upper_char c = (let n = of_char c :: nat in
     if 97 \<le> n \<and> n \<le> 122 then char_of (n - 32) else c)"

definition upper :: "string \<Rightarrow> string" where
  "upper s = map upper_char s"

definition startswith :: "string \<Rightarrow> string \<Rightarrow> bool" where
  \<comment> \<open>\<^verbatim>\<open>s.startswith(p)\<close>\<close>
  "startswith s p = (take (length p) s = p)"

definition truthy_str :: "string option \<Rightarrow> bool" where
  \<comment> \<open>Truth value of an \<^verbatim>\<open>Optional[str]\<close>: \<^verbatim>\<open>None\<close> and the empty string are falsy.\<close>
  "truthy_str v = (case v of None \<Rightarrow> False | Some s \<Rightarrow> s \<noteq> [])"

definition is_linebreak :: "char \<Rightarrow> bool" where
  \<comment> \<open>The line boundaries of \<^verbatim>\<open>str.splitlines\<close> below 256: LF, VT, FF, CR, FS, GS, RS, NEL.\<close>
  "is_linebreak c = (of_char c \<in> {10, 11, 12, 13, 28, 29, 30, 133 :: nat})"

fun splitlines_from :: "string \<Rightarrow> string \<Rightarrow> string list" where
  \<comment> \<open>The first argument is the line read so far. CR LF is one boundary; a boundary at
      the very end opens no further line.\<close>
  "splitlines_from cur [] = (if cur = [] then [] else [cur])"
| "splitlines_from cur [c] = (if is_linebreak c then [cur] else [cur @ [c]])"
| "splitlines_from cur (c # d # cs) =
     (if c = CHR 0x0D \<and> d = CHR 0x0A then cur # splitlines_from [] cs
      else if is_linebreak c then cur # splitlines_from [] (d # cs)
      else splitlines_from (cur @ [c]) (d # cs))"

definition splitlines :: "string \<Rightarrow> string list" where
  \<comment> \<open>\<^verbatim>\<open>s.splitlines()\<close>\<close>
  "splitlines s = splitlines_from [] s"

fun join :: "string \<Rightarrow> string list \<Rightarrow> string" where
  \<comment> \<open>\<^verbatim>\<open>sep.join(items)\<close> on strings\<close>
  "join sep [] = []"
| "join sep [x] = x"
| "join sep (x # y # zs) = x @ sep @ join sep (y # zs)"

fun str_of_nat :: "nat \<Rightarrow> string" where
  \<comment> \<open>Decimal text of a natural number, as an f-string prints it.\<close>
  "str_of_nat n =
     (if n < 10 then [char_of (48 + n)] else str_of_nat (n div 10) @ [char_of (48 + n mod 10)])"

declare str_of_nat.simps [simp del]


section \<open>Errors and decoded JSON\<close>

text \<open>
  Every \<^verbatim>\<open>raise\<close> of the script and every exception of the Python operations it uses is
  a value. \<^verbatim>\<open>parser.error\<close> of argparse ends the process with \<^verbatim>\<open>SystemExit\<close>.
\<close>

datatype error =
    RuntimeError string
  | ValueError string
  | AttributeError
  | TypeError
  | OverflowError
  | FileNotFoundError string
  | JSONDecodeError
  | URLError
  | SystemExit string

definition and_then :: "error + 'a \<Rightarrow> ('a \<Rightarrow> error + 'b) \<Rightarrow> error + 'b" where
  \<comment> \<open>Sequencing: an exception of the first step is the exception of the whole.\<close>
  "and_then r f = (case r of Inl e \<Rightarrow> Inl e | Inr v \<Rightarrow> f v)"

fun collect :: "('a \<Rightarrow> error + 'b) \<Rightarrow> 'a list \<Rightarrow> error + 'b list" where
  \<comment> \<open>Running a generator expression to its end: the first exception stops it.\<close>
  "collect f [] = Inr []"
| "collect f (x # xs) =
     (case f x of
        Inl e \<Rightarrow> Inl e
      | Inr y \<Rightarrow> (case collect f xs of Inl e \<Rightarrow> Inl e | Inr ys \<Rightarrow> Inr (y # ys)))"

text \<open>
  What \<^verbatim>\<open>json.loads\<close> returns: \<^verbatim>\<open>None\<close>, \<^verbatim>\<open>bool\<close>, \<^verbatim>\<open>int\<close>, \<^verbatim>\<open>float\<close>, \<^verbatim>\<open>str\<close>, \<^verbatim>\<open>list\<close>
  and \<^verbatim>\<open>dict\<close>. A \<^verbatim>\<open>dict\<close> is an association list in insertion order with distinct keys.
  Finite floats are real numbers here; NaN and the infinities are outside the model.
\<close>

datatype json =
    JNull
  | JBool bool
  | JInt int
  | JFloat real
  | JString string
  | JArray "json list"
  | JObject "(string \<times> json) list"

type_synonym dict = "(string \<times> json) list"

fun truthy :: "json \<Rightarrow> bool" where
  \<comment> \<open>Python's truth value of a decoded value.\<close>
  "truthy JNull = False"
| "truthy (JBool b) = b"
| "truthy (JInt i) = (i \<noteq> 0)"
| "truthy (JFloat x) = (x \<noteq> 0)"
| "truthy (JString s) = (s \<noteq> [])"
| "truthy (JArray xs) = (xs \<noteq> [])"
| "truthy (JObject kvs) = (kvs \<noteq> [])"

definition of_arg :: "string option \<Rightarrow> json" where
  \<comment> \<open>An \<^verbatim>\<open>Optional[str]\<close> as a Python value.\<close>
  "of_arg a = (case a of None \<Rightarrow> JNull | Some s \<Rightarrow> JString s)"

definition dict_get :: "dict \<Rightarrow> string \<Rightarrow> json \<Rightarrow> json" where
  \<comment> \<open>\<^verbatim>\<open>d.get(key, default)\<close>; \<^verbatim>\<open>d.get(key)\<close> is \<open>dict_get d key JNull\<close>.\<close>
  "dict_get d key dflt = (case map_of d key of None \<Rightarrow> dflt | Some v \<Rightarrow> v)"

definition dict_update :: "dict \<Rightarrow> dict \<Rightarrow> dict" where
  \<comment> \<open>\<^verbatim>\<open>d.update(other)\<close>: a key already present keeps its place and takes the new value,
      a new key is appended.\<close>
  "dict_update d other = fold (\<lambda>(k, v). AList.update k v) other d"

fun get_field :: "string \<Rightarrow> json \<Rightarrow> json \<Rightarrow> error + json" where
  \<comment> \<open>\<^verbatim>\<open>x.get(key, default)\<close> on an arbitrary decoded value: only a \<^verbatim>\<open>dict\<close> has \<^verbatim>\<open>get\<close>.\<close>
  "get_field key dflt (JObject kvs) = Inr (dict_get kvs key dflt)"
| "get_field key dflt _ = Inl AttributeError"

fun py_len :: "json \<Rightarrow> error + nat" where
  \<comment> \<open>\<^verbatim>\<open>len(x)\<close>\<close>
  "py_len (JArray xs) = Inr (length xs)"
| "py_len (JString s) = Inr (length s)"
| "py_len (JObject kvs) = Inr (length kvs)"
| "py_len _ = Inl TypeError"

fun py_iter :: "json \<Rightarrow> error + json list" where
  \<comment> \<open>The items \<^verbatim>\<open>for item in x\<close> runs over: elements of a list, characters of a string,
      keys of a dict.\<close>
  "py_iter (JArray xs) = Inr xs"
| "py_iter (JString s) = Inr (map (\<lambda>c. JString [c]) s)"
| "py_iter (JObject kvs) = Inr (map (\<lambda>kv. JString (fst kv)) kvs)"
| "py_iter _ = Inl TypeError"

fun as_str :: "json \<Rightarrow> error + string" where
  "as_str (JString s) = Inr s"
| "as_str _ = Inl TypeError"

definition py_join :: "string \<Rightarrow> json list \<Rightarrow> error + string" where
  \<comment> \<open>\<^verbatim>\<open>sep.join(items)\<close> on Python values: an item that is not a \<^verbatim>\<open>str\<close> is a
      \<^verbatim>\<open>TypeError\<close>.\<close>
  "py_join sep items = and_then (collect as_str items) (\<lambda>strs. Inr (join sep strs))"

definition py_or :: "json \<Rightarrow> json \<Rightarrow> json" where
  \<comment> \<open>\<^verbatim>\<open>a or b\<close>\<close>
  "py_or a b = (if truthy a then a else b)"


section \<open>The process and its surroundings\<close>

text \<open>
  The parsed command line (\<^verbatim>\<open>args\<close> after \<^verbatim>\<open>parser.parse_args()\<close>, lines 310-388) is a
  record with one field per option; an option that was not given is \<^verbatim>\<open>None\<close>.
\<close>

datatype command = Init | Issue | Project | Team | Custom

record args =
  arg_command :: command
  arg_endpoint :: string
  arg_token :: "string option"
  arg_env :: "string option"
  arg_config :: string
  arg_auth_scheme :: "string option"
  arg_public_file_urls_expire_in :: "string option"
  arg_workspace :: "string option"
  arg_team_id :: "string option"
  arg_team_key :: "string option"
  arg_project_id :: "string option"
  arg_project_name :: "string option"
  arg_board_url :: "string option"
  arg_auth_mode :: "string option"
  arg_mcp_server :: "string option"
  arg_id :: "string option"
  arg_identifier :: "string option"
  arg_details :: bool
  arg_out :: "string option"
  arg_first :: int
  arg_query :: string
  arg_variables :: "string option"

definition arg_text :: "string option \<Rightarrow> string" where
  \<comment> \<open>The text of an option that is known to be given.\<close>
  "arg_text a = (case a of None \<Rightarrow> [] | Some s \<Rightarrow> s)"

text \<open>
  The files the process can see (a path to the text of the file; files only, and a path is
  the string it was written as), the process environment, and the lines printed to
  standard output.
\<close>

record world =
  files :: "string \<rightharpoonup> string"
  environ :: "string \<rightharpoonup> string"
  stdout :: "string list"

text \<open>
  The four query documents of lines 14-175 are named, not spelled out; a custom query
  carries its text.
\<close>

datatype query =
    QUERY_ISSUE_BY_ID
  | QUERY_ISSUE_BY_IDENTIFIER
  | QUERY_PROJECT
  | QUERY_TEAM
  | CustomQuery string

record request =
  req_endpoint :: string
  req_headers :: "(string \<times> string) list"
  req_query :: query
  req_variables :: json

datatype reply =
    Body string
  | HTTPError nat string
  | Unreachable

text \<open>
  The library, the interpreter and the network are parameters: the JSON decoder (\<^verbatim>\<open>None\<close>
  for a \<^verbatim>\<open>JSONDecodeError\<close>), the JSON printer with \<^verbatim>\<open>indent=2\<close>, the conversion \<^verbatim>\<open>float(n)\<close>
  (\<^verbatim>\<open>None\<close> for an \<^verbatim>\<open>OverflowError\<close>), the interpreter's limit on the number of digits of a
  decimal text that \<^verbatim>\<open>int\<close> converts (\<^verbatim>\<open>sys.get_int_max_str_digits()\<close>: 4300 unless configured,
  0 for no limit) and the answer of the server to a request.
\<close>

record runtime =
  json_loads :: "string \<Rightarrow> json option"
  json_dumps :: "json \<Rightarrow> string"
  float_of_int :: "int \<Rightarrow> real option"
  int_max_str_digits :: nat
  urlopen :: "request \<Rightarrow> reply"


section \<open>Env Loader\<close>

definition env_body :: "string \<Rightarrow> string" where
  \<comment> \<open>Lines 183 and 186-187: the trimmed line, without a leading \<^verbatim>\<open>export \<close>.\<close>
  "env_body raw =
     (let line = strip raw in
      if startswith line ''export '' then strip (drop (length ''export '') line) else line)"

definition env_line :: "string \<Rightarrow> (string \<times> string) option" where
  \<comment> \<open>The body of the loop of \<^verbatim>\<open>load_env_file\<close>, lines 183-191: \<^verbatim>\<open>None\<close> is \<^verbatim>\<open>continue\<close>,
      otherwise the key and the value stored. \<^verbatim>\<open>split("=", 1)\<close> cuts at the first \<^verbatim>\<open>=\<close>.\<close>
  "env_line raw =
     (let line = strip raw in
      if line = [] \<or> startswith line ''#'' then None
      else
        let line = env_body raw
        in if CHR ''='' \<notin> set line then None
           else
             let key = takeWhile (\<lambda>c. c \<noteq> CHR ''='') line;
                 val = tl (dropWhile (\<lambda>c. c \<noteq> CHR ''='') line)
             in Some (strip key, strip_chars [CHR 0x27] (strip_chars [CHR 0x22] (strip val))))"

text \<open>
  Two readings of "strip quotes", both in the words of the specification. The first is
  what the specification says the loader does: remove one matching pair of a quote
  character, when the text both starts and ends with it. The second says what it means
  for \<open>t\<close> to be \<open>s\<close> without its leading and trailing characters of a kind: \<open>s\<close> is
  \<open>t\<close> between two runs of such characters, and \<open>t\<close> neither starts nor ends with one.
\<close>

definition strip_one_pair :: "char \<Rightarrow> string \<Rightarrow> string" where
  "strip_one_pair q s =
     (if 2 \<le> length s \<and> hd s = q \<and> last s = q then butlast (tl s) else s)"

definition stripped_of :: "(char \<Rightarrow> bool) \<Rightarrow> string \<Rightarrow> string \<Rightarrow> bool" where
  "stripped_of P s t =
     (\<exists>pre post. s = pre @ t @ post \<and> list_all P pre \<and> list_all P post
        \<and> (t \<noteq> [] \<longrightarrow> \<not> P (hd t) \<and> \<not> P (last t)))"

definition load_env_file :: "world \<Rightarrow> string option \<Rightarrow> (string \<times> string) list" where
  \<comment> \<open>Lines 178-192.\<close>
  "load_env_file w path =
     (case path of
        None \<Rightarrow> []
      | Some p \<Rightarrow>
          (case files w p of
             None \<Rightarrow> []
           | Some text \<Rightarrow>
               fold (\<lambda>line env. case env_line line of
                                   None \<Rightarrow> env
                                 | Some (k, v) \<Rightarrow> AList.update k v env)
                    (splitlines text) []))"

definition resolve_env_path :: "world \<Rightarrow> string option \<Rightarrow> dict \<Rightarrow> error + string option" where
  \<comment> \<open>Lines 195-205. \<^verbatim>\<open>Path(config_env)\<close> of a value that is not a string is a
      \<^verbatim>\<open>TypeError\<close>.\<close>
  "resolve_env_path w arg_env_v config =
     (if truthy_str arg_env_v then Inr (Some (arg_text arg_env_v))
      else
        let config_env = dict_get config ''envFile'' JNull in
        if truthy config_env then
          (case config_env of JString p \<Rightarrow> Inr (Some p) | _ \<Rightarrow> Inl TypeError)
        else if files w ''.env.local'' \<noteq> None then Inr (Some ''.env.local'')
        else if files w ''.env'' \<noteq> None then Inr (Some ''.env'')
        else Inr None)"


section \<open>Config Store\<close>

definition load_config :: "runtime \<Rightarrow> world \<Rightarrow> string \<Rightarrow> json" where
  \<comment> \<open>Lines 208-214: a missing file and a file that does not decode both give \<^verbatim>\<open>{}\<close>.\<close>
  "load_config rt w path =
     (case files w path of
        None \<Rightarrow> JObject []
      | Some text \<Rightarrow> (case json_loads rt text of None \<Rightarrow> JObject [] | Some v \<Rightarrow> v))"

definition write_config :: "runtime \<Rightarrow> string \<Rightarrow> dict \<Rightarrow> world \<Rightarrow> world" where
  \<comment> \<open>Lines 217-218.\<close>
  "write_config rt path config w =
     w\<lparr>files := (files w)(path \<mapsto> json_dumps rt (JObject config) @ [CHR 0x0A])\<rparr>"

definition init_updates :: "args \<Rightarrow> dict \<Rightarrow> dict" where
  \<comment> \<open>The dict \<^verbatim>\<open>updates\<close> of lines 394-405.\<close>
  "init_updates a config =
     [(''workspace'', of_arg (arg_workspace a)),
      (''teamId'', of_arg (arg_team_id a)),
      (''teamKey'', of_arg (arg_team_key a)),
      (''projectId'', of_arg (arg_project_id a)),
      (''projectName'', of_arg (arg_project_name a)),
      (''boardUrl'', of_arg (arg_board_url a)),
      (''envFile'', py_or (of_arg (arg_env a)) (dict_get config ''envFile'' JNull)),
      (''authMode'', of_arg (arg_auth_mode a)),
      (''authScheme'', of_arg (arg_auth_scheme a)),
      (''mcpServer'', of_arg (arg_mcp_server a))]"

definition clean_updates :: "dict \<Rightarrow> dict" where
  \<comment> \<open>Line 406: \<^verbatim>\<open>{k: v for k, v in updates.items() if v}\<close>\<close>
  "clean_updates updates = filter (\<lambda>kv. truthy (snd kv)) updates"

definition init_config :: "args \<Rightarrow> dict \<Rightarrow> dict" where
  \<comment> \<open>The config after line 407, the one handed to \<^verbatim>\<open>write_config\<close>.\<close>
  "init_config a config = dict_update config (clean_updates (init_updates a config))"

definition print_line :: "string \<Rightarrow> world \<Rightarrow> world" where
  "print_line s w = w\<lparr>stdout := stdout w @ [s]\<rparr>"

definition run_init :: "runtime \<Rightarrow> args \<Rightarrow> dict \<Rightarrow> world \<Rightarrow> world" where
  \<comment> \<open>Lines 393-410.\<close>
  "run_init rt a config w =
     print_line (''Saved config to '' @ arg_config a)
       (write_config rt (arg_config a) (init_config a config) w)"


section \<open>Identifier Parser\<close>

definition is_ascii_letter :: "char \<Rightarrow> bool" where
  \<comment> \<open>The class \<^verbatim>\<open>[A-Za-z]\<close>\<close>
  "is_ascii_letter c =
     (let n = of_char c :: nat in (65 \<le> n \<and> n \<le> 90) \<or> (97 \<le> n \<and> n \<le> 122))"

definition is_digit :: "char \<Rightarrow> bool" where
  \<comment> \<open>The class \<^verbatim>\<open>\d\<close> below 256: 0-9\<close>
  "is_digit c = (let n = of_char c :: nat in 48 \<le> n \<and> n \<le> 57)"

definition is_word_char :: "char \<Rightarrow> bool" where
  \<comment> \<open>The class \<^verbatim>\<open>[A-Za-z0-9_]\<close>\<close>
  "is_word_char c = (is_ascii_letter c \<or> is_digit c \<or> c = CHR ''_'')"

definition int_of_digits :: "string \<Rightarrow> int" where
  \<comment> \<open>The integer a run of the digits 0-9 denotes in base ten.\<close>
  "int_of_digits ds = foldl (\<lambda>a c. 10 * a + (of_char c - 48)) 0 ds"

definition int_limit_exceeded :: "runtime \<Rightarrow> nat \<Rightarrow> bool" where
  \<comment> \<open>The test \<^verbatim>\<open>int\<close> makes on the number of digits of its argument: runs of up to 640
      digits are always converted, longer ones only up to the interpreter's limit, when
      there is one.\<close>
  "int_limit_exceeded rt n =
     (640 < n \<and> 0 < int_max_str_digits rt \<and> int_max_str_digits rt < n)"

definition py_int :: "runtime \<Rightarrow> string \<Rightarrow> error + int" where
  \<comment> \<open>\<^verbatim>\<open>int(s)\<close> of a run of the digits 0-9: a run over the limit is a \<^verbatim>\<open>ValueError\<close>.\<close>
  "py_int rt ds =
     (if int_limit_exceeded rt (length ds)
      then Inl (ValueError (''Exceeds the limit ('' @ str_of_nat (int_max_str_digits rt)
                  @ '' digits) for integer string conversion: value has ''
                  @ str_of_nat (length ds)
                  @ '' digits; use sys.set_int_max_str_digits() to increase the limit''))
      else Inr (int_of_digits ds))"

definition match_identifier :: "string \<Rightarrow> (string \<times> string) option" where
  \<comment> \<open>\<^verbatim>\<open>re.match(r"^([A-Za-z][A-Za-z0-9_]*)-(\d+)$", value)\<close>, giving the two groups. Both
      runs are greedy, and no shorter run can match, since a hyphen is in neither class.
      \<^verbatim>\<open>$\<close> matches at the end and before one final line feed.\<close>
  "match_identifier v =
     (case v of
        [] \<Rightarrow> None
      | c # cs \<Rightarrow>
          if is_ascii_letter c then
            (case dropWhile is_word_char cs of
               [] \<Rightarrow> None
             | h # ds \<Rightarrow>
                 if h = CHR ''-'' \<and> takeWhile is_digit ds \<noteq> []
                    \<and> dropWhile is_digit ds \<in> {[], [CHR 0x0A]}
                 then Some (c # takeWhile is_word_char cs, takeWhile is_digit ds)
                 else None)
          else None)"

definition parse_issue_identifier :: "runtime \<Rightarrow> string \<Rightarrow> error + (string \<times> int)" where
  \<comment> \<open>Lines 221-228; the runtime is there for \<^verbatim>\<open>int\<close> on line 227.\<close>
  "parse_issue_identifier rt identifier =
     (let v = strip identifier in
      case match_identifier v of
        None \<Rightarrow> Inl (ValueError (''Invalid issue identifier '' @ [CHR 0x27] @ identifier
                       @ [CHR 0x27] @ ''. Expected format TEAM-123.''))
      | Some (g1, g2) \<Rightarrow>
          (let team_key = upper g1 in
           case py_int rt g2 of
             Inl e \<Rightarrow> Inl e
           | Inr number \<Rightarrow> Inr (team_key, number)))"



section \<open>Credential Resolver\<close>

definition resolve_token :: "args \<Rightarrow> world \<Rightarrow> (string \<times> string) list \<Rightarrow> string option" where
  \<comment> \<open>Lines 270-275.\<close>
  "resolve_token a w env_data =
     (if truthy_str (arg_token a) then arg_token a
      else if truthy_str (environ w ''LINEAR_API_TOKEN'') then environ w ''LINEAR_API_TOKEN''
      else map_of env_data ''LINEAR_API_TOKEN'')"

text \<open>
  The precedence the specification gives in words: the first source, in the order
  listed, that holds a non-empty value.
\<close>

fun first_non_empty :: "string option list \<Rightarrow> string option" where
  "first_non_empty [] = None"
| "first_non_empty (None # rest) = first_non_empty rest"
| "first_non_empty (Some s # rest) = (if s = [] then first_non_empty rest else Some s)"

text \<open>
  \<^verbatim>\<open>format_auth_header(token, scheme)\<close>, lines 231-244. The three returns after the
  \<^verbatim>\<open>if scheme:\<close> block are kept as the source has them.
\<close>

definition format_auth_header :: "string \<Rightarrow> string option \<Rightarrow> string" where
  "format_auth_header tok scheme =
     (let no_hint =
            (if startswith (lower tok) ''bearer '' then tok
             else if CHR '' '' \<in> set tok then tok
             else tok)
      in case scheme of
           None \<Rightarrow> no_hint
         | Some s \<Rightarrow>
             if s = [] then no_hint
             else
               let scheme_value = lower (strip s) in
               if scheme_value \<in> {''bearer'', ''oauth''} then
                 (if startswith (lower tok) ''bearer '' then tok else ''Bearer '' @ tok)
               else if scheme_value \<in> {''raw'', ''token''} then tok
               else no_hint)"

definition header_value :: "string \<Rightarrow> json \<Rightarrow> error + string" where
  \<comment> \<open>\<^verbatim>\<open>format_auth_header\<close> called with the value of
      \<^verbatim>\<open>args.auth_scheme or config.get("authScheme")\<close>: a truthy value that is not a string has
      no \<^verbatim>\<open>strip\<close>.\<close>
  "header_value tok scheme =
     (case scheme of
        JString s \<Rightarrow> Inr (format_auth_header tok (Some s))
      | _ \<Rightarrow> if truthy scheme then Inl AttributeError else Inr (format_auth_header tok None))"


section \<open>Request Transport\<close>

definition post_graphql ::
  "runtime \<Rightarrow> string \<Rightarrow> string \<Rightarrow> json \<Rightarrow> query \<Rightarrow> json \<Rightarrow> (string \<times> string) list
     \<Rightarrow> error + json" where
  \<comment> \<open>Lines 247-267.\<close>
  "post_graphql rt endpoint tok auth_scheme q variables extra_headers =
     and_then (header_value tok auth_scheme) (\<lambda>auth.
       case urlopen rt \<lparr>req_endpoint = endpoint,
                        req_headers = [(''Content-Type'', ''application/json''),
                                       (''Authorization'', auth)] @ extra_headers,
                        req_query = q,
                        req_variables = variables\<rparr> of
         Body body \<Rightarrow>
           (case json_loads rt body of None \<Rightarrow> Inl JSONDecodeError | Some v \<Rightarrow> Inr v)
       | HTTPError code error_body \<Rightarrow>
           Inl (RuntimeError (''Request failed: HTTP '' @ str_of_nat code @ '' '' @ error_body))
       | Unreachable \<Rightarrow> Inl URLError)"

definition raise_on_errors :: "json \<Rightarrow> error + unit" where
  \<comment> \<open>Lines 289-294. The generator is run to its end before \<^verbatim>\<open>join\<close> looks at the items.\<close>
  "raise_on_errors response =
     and_then (get_field ''errors'' JNull response) (\<lambda>errors.
       if \<not> truthy errors then Inr ()
       else
         and_then (py_iter errors) (\<lambda>items.
         and_then (collect (get_field ''message'' (JString ''Unknown error'')) items) (\<lambda>msgs.
         and_then (py_join ''; '' msgs) (\<lambda>message.
           Inl (RuntimeError (''GraphQL error: '' @ message))))))"

definition write_output :: "runtime \<Rightarrow> json \<Rightarrow> string option \<Rightarrow> world \<Rightarrow> world" where
  \<comment> \<open>Lines 278-286.\<close>
  "write_output rt data out_path w =
     (let output = json_dumps rt data in
      if \<not> truthy_str out_path \<or> out_path = Some ''-'' then print_line output w
      else w\<lparr>files := (files w)(arg_text out_path \<mapsto> output @ [CHR 0x0A])\<rparr>)"

definition parse_variables :: "runtime \<Rightarrow> world \<Rightarrow> string option \<Rightarrow> error + json" where
  \<comment> \<open>Lines 297-306.\<close>
  "parse_variables rt w v =
     (let decode = (\<lambda>text. case json_loads rt text of None \<Rightarrow> Inl JSONDecodeError
                                                     | Some j \<Rightarrow> Inr j)
      in if \<not> truthy_str v then Inr (JObject [])
         else
           let s = arg_text v in
           if startswith s ''@'' then
             (case files w (drop 1 s) of
                None \<Rightarrow> Inl (FileNotFoundError (drop 1 s))
              | Some raw \<Rightarrow> decode raw)
           else
             (case files w s of Some text \<Rightarrow> decode text | None \<Rightarrow> decode s))"


section \<open>Response Disambiguator\<close>

definition issue_nodes :: "json \<Rightarrow> error + json" where
  \<comment> \<open>Line 445: \<^verbatim>\<open>response.get("data", {}).get("issues", {}).get("nodes", [])\<close>\<close>
  "issue_nodes response =
     and_then (get_field ''data'' (JObject []) response) (\<lambda>data.
     and_then (get_field ''issues'' (JObject []) data) (\<lambda>issues.
       get_field ''nodes'' (JArray []) issues))"

definition disambiguate :: "string \<Rightarrow> json \<Rightarrow> error + unit" where
  \<comment> \<open>Lines 445-453, for the identifier given on the command line.\<close>
  "disambiguate identifier response =
     and_then (issue_nodes response) (\<lambda>nodes.
     and_then (py_len nodes) (\<lambda>n.
       if n = 0 then Inl (RuntimeError (''No issue found for identifier '' @ identifier))
       else if n > 1 then
         and_then (py_iter nodes) (\<lambda>items.
         and_then (collect (get_field ''identifier'' (JString ''?'')) items) (\<lambda>ids.
         and_then (py_join '', '' ids) (\<lambda>identifiers.
           Inl (RuntimeError (''Multiple issues matched identifier. Use --id instead. ''
                              @ ''Matches: '' @ identifiers)))))
       else Inr ()))"

definition finish_issue :: "runtime \<Rightarrow> args \<Rightarrow> json \<Rightarrow> world \<Rightarrow> error + world" where
  \<comment> \<open>Lines 443-455: what the \<^verbatim>\<open>issue\<close> command does with the decoded response.\<close>
  "finish_issue rt a response w =
     and_then (raise_on_errors response) (\<lambda>_.
     and_then (if truthy_str (arg_identifier a)
               then disambiguate (arg_text (arg_identifier a)) response
               else Inr ()) (\<lambda>_.
       Inr (write_output rt response (arg_out a) w)))"


section \<open>Command Dispatcher\<close>

definition finish_plain :: "runtime \<Rightarrow> args \<Rightarrow> json \<Rightarrow> world \<Rightarrow> error + world" where
  \<comment> \<open>\<^verbatim>\<open>raise_on_errors(response); write_output(response, args.out)\<close> of the other commands.\<close>
  "finish_plain rt a response w =
     and_then (raise_on_errors response) (\<lambda>_. Inr (write_output rt response (arg_out a) w))"

definition chosen_auth_scheme :: "args \<Rightarrow> dict \<Rightarrow> json" where
  \<comment> \<open>\<^verbatim>\<open>args.auth_scheme or config.get("authScheme")\<close>\<close>
  "chosen_auth_scheme a config =
     py_or (of_arg (arg_auth_scheme a)) (dict_get config ''authScheme'' JNull)"

definition run_issue ::
  "runtime \<Rightarrow> args \<Rightarrow> dict \<Rightarrow> world \<Rightarrow> string \<Rightarrow> (string \<times> string) list \<Rightarrow> error + world" where
  \<comment> \<open>Lines 427-455.\<close>
  "run_issue rt a config w tok extra_headers =
     (if \<not> truthy_str (arg_id a) \<and> \<not> truthy_str (arg_identifier a)
      then Inl (SystemExit ''issue requires --id or --identifier'')
      else
        and_then
          (if truthy_str (arg_id a)
           then Inr (QUERY_ISSUE_BY_ID,
                     JObject [(''issueId'', of_arg (arg_id a)),
                              (''includeDetails'', JBool (arg_details a))])
           else
             and_then (parse_issue_identifier rt (arg_text (arg_identifier a))) (\<lambda>(team_key, number).
               case float_of_int rt number of
                 None \<Rightarrow> Inl OverflowError
               | Some x \<Rightarrow>
                   Inr (QUERY_ISSUE_BY_IDENTIFIER,
                        JObject [(''teamKey'', JString team_key),
                                 (''number'', JFloat x),
                                 (''includeDetails'', JBool (arg_details a))])))
          (\<lambda>(q, variables).
             and_then (post_graphql rt (arg_endpoint a) tok (chosen_auth_scheme a config)
                         q variables extra_headers)
               (\<lambda>response. finish_issue rt a response w)))"

definition run_listing ::
  "runtime \<Rightarrow> args \<Rightarrow> dict \<Rightarrow> world \<Rightarrow> string \<Rightarrow> (string \<times> string) list
     \<Rightarrow> string \<Rightarrow> string \<Rightarrow> query \<Rightarrow> string \<Rightarrow> error + world" where
  \<comment> \<open>Lines 457-466 (\<^verbatim>\<open>project\<close>) and 468-477 (\<^verbatim>\<open>team\<close>), which differ in the config key,
      the variable name, the query and the usage message.\<close>
  "run_listing rt a config w tok extra_headers config_key var_name q usage =
     (let the_id = py_or (of_arg (arg_id a)) (dict_get config config_key JNull) in
      if \<not> truthy the_id then Inl (SystemExit usage)
      else
        and_then (post_graphql rt (arg_endpoint a) tok (chosen_auth_scheme a config) q
                    (JObject [(var_name, the_id), (''first'', JInt (arg_first a))])
                    extra_headers)
          (\<lambda>response. finish_plain rt a response w))"

definition run_custom ::
  "runtime \<Rightarrow> args \<Rightarrow> dict \<Rightarrow> world \<Rightarrow> string \<Rightarrow> (string \<times> string) list \<Rightarrow> error + world" where
  \<comment> \<open>Lines 479-489.\<close>
  "run_custom rt a config w tok extra_headers =
     (case files w (arg_query a) of
        None \<Rightarrow> Inl (RuntimeError (''Query file not found: '' @ arg_query a))
      | Some text \<Rightarrow>
          and_then (parse_variables rt w (arg_variables a)) (\<lambda>variables.
          and_then (post_graphql rt (arg_endpoint a) tok (chosen_auth_scheme a config)
                      (CustomQuery text) variables extra_headers)
            (\<lambda>response. finish_plain rt a response w)))"

definition loaded_env :: "world \<Rightarrow> args \<Rightarrow> dict \<Rightarrow> error + (string \<times> string) list" where
  \<comment> \<open>Lines 416-417: the mapping the Env Loader produces for this invocation.\<close>
  "loaded_env w a config =
     and_then (resolve_env_path w (arg_env a) config) (\<lambda>env_path.
       Inr (case env_path of None \<Rightarrow> [] | Some p \<Rightarrow> load_env_file w (Some p)))"

definition extra_headers_of :: "args \<Rightarrow> (string \<times> string) list" where
  \<comment> \<open>Lines 423-425.\<close>
  "extra_headers_of a =
     (if truthy_str (arg_public_file_urls_expire_in a)
      then [(''public-file-urls-expire-in'', arg_text (arg_public_file_urls_expire_in a))]
      else [])"

definition dispatch ::
  "runtime \<Rightarrow> args \<Rightarrow> dict \<Rightarrow> world \<Rightarrow> string \<Rightarrow> (string \<times> string) list \<Rightarrow> error + world" where
  \<comment> \<open>Lines 427-489: the four commands that use the resolved token. With \<^verbatim>\<open>init\<close> the
      script has returned before this point.\<close>
  "dispatch rt a config w tok extra_headers =
     (case arg_command a of
        Issue \<Rightarrow> run_issue rt a config w tok extra_headers
      | Project \<Rightarrow>
          run_listing rt a config w tok extra_headers
            ''projectId'' ''projectId'' QUERY_PROJECT
            ''project requires --id or config projectId''
      | Team \<Rightarrow>
          run_listing rt a config w tok extra_headers
            ''teamId'' ''teamId'' QUERY_TEAM
            ''team requires --id or config teamId''
      | Custom \<Rightarrow> run_custom rt a config w tok extra_headers
      | Init \<Rightarrow> Inr w)"

definition run_command :: "runtime \<Rightarrow> args \<Rightarrow> dict \<Rightarrow> world \<Rightarrow> error + world" where
  \<comment> \<open>Lines 412-489: every command but \<^verbatim>\<open>init\<close>.\<close>
  "run_command rt a config w =
     (let auth_mode = py_or (dict_get config ''authMode'' JNull) (JString ''token'') in
      if auth_mode = JString ''mcp''
      then Inl (RuntimeError ''Auth mode is set to mcp. Use MCP connectivity for this workspace.'')
      else
        and_then (loaded_env w a config) (\<lambda>env_data.
          let tok = resolve_token a w env_data in
          if \<not> truthy_str tok
          then Inl (RuntimeError ''LINEAR_API_TOKEN not found in env or args'')
          else dispatch rt a config w (arg_text tok) (extra_headers_of a)))"

definition main :: "runtime \<Rightarrow> args \<Rightarrow> world \<Rightarrow> error + world" where
  \<comment> \<open>Lines 388-489. A config file that decodes to something other than an object fails
      at the first \<^verbatim>\<open>config.get\<close> or at \<^verbatim>\<open>config.update\<close>.\<close>
  "main rt a w =
     (case load_config rt w (arg_config a) of
        JObject config \<Rightarrow>
          if arg_command a = Init then Inr (run_init rt a config w)
          else run_command rt a config w
      | _ \<Rightarrow> Inl AttributeError)"


section \<open>Shapes of a decoded response\<close>

text \<open>
  The GraphQL response format gives \<^verbatim>\<open>errors\<close> as a list of objects whose \<^verbatim>\<open>message\<close> is a
  string, and the issue query gives each node's \<^verbatim>\<open>identifier\<close> as a string. The two
  predicates say that an entry has this shape, the field being optional; the two
  functions read the field, with the default of the script.
\<close>

definition has_text_field :: "string \<Rightarrow> json \<Rightarrow> bool" where
  "has_text_field key v =
     (case v of
        JObject kvs \<Rightarrow>
          (case map_of kvs key of None \<Rightarrow> True | Some (JString s) \<Rightarrow> True | Some _ \<Rightarrow> False)
      | _ \<Rightarrow> False)"

definition text_field :: "string \<Rightarrow> string \<Rightarrow> json \<Rightarrow> string" where
  "text_field key dflt v =
     (case v of
        JObject kvs \<Rightarrow> (case map_of kvs key of Some (JString s) \<Rightarrow> s | _ \<Rightarrow> dflt)
      | _ \<Rightarrow> dflt)"


section \<open>Sample invocations\<close>

text \<open>
  A command line, a runtime and config texts on which the theorems below are run:
  \<^verbatim>\<open>issue --identifier ENG-42\<close> with every other option left out; the response of the
  issue query with a given node list; a runtime with a decoder that knows two config
  texts, a printer that knows the response with the one node \<^verbatim>\<open>{"identifier": "ENG-42"}\<close>
  and that node alone (each printed as \<^verbatim>\<open>json.dumps\<close> with \<^verbatim>\<open>indent=2\<close> prints it), the digit
  limit 4300 of an interpreter that was not configured, and no server.
\<close>

definition sample_args :: args where
  "sample_args =
     \<lparr>arg_command = Issue,
      arg_endpoint = ''https://api.linear.app/graphql'',
      arg_token = None,
      arg_env = None,
      arg_config = ''.linear-task-planner.json'',
      arg_auth_scheme = None,
      arg_public_file_urls_expire_in = None,
      arg_workspace = None,
      arg_team_id = None,
      arg_team_key = None,
      arg_project_id = None,
      arg_project_name = None,
      arg_board_url = None,
      arg_auth_mode = None,
      arg_mcp_server = None,
      arg_id = None,
      arg_identifier = Some ''ENG-42'',
      arg_details = False,
      arg_out = None,
      arg_first = 50,
      arg_query = [],
      arg_variables = None\<rparr>"

definition quoted :: "string \<Rightarrow> string" where
  "quoted s = [CHR 0x22] @ s @ [CHR 0x22]"

definition mcp_config_text :: string where
  \<comment> \<open>A config file that selects MCP and names an env file by a number.\<close>
  "mcp_config_text =
     ''{'' @ quoted ''authMode'' @ '': '' @ quoted ''mcp'' @ '', ''
           @ quoted ''envFile'' @ '': 5}''"

definition team_config_text :: string where
  \<comment> \<open>A config file that stores a team key and a workspace.\<close>
  "team_config_text =
     ''{'' @ quoted ''teamKey'' @ '': '' @ quoted ''ENG'' @ '', ''
           @ quoted ''workspace'' @ '': '' @ quoted ''acme'' @ ''}''"

definition sample_response :: "json list \<Rightarrow> json" where
  "sample_response nodes =
     JObject [(''data'', JObject [(''issues'', JObject [(''nodes'', JArray nodes)])])]"

definition text_lines :: "string list \<Rightarrow> string" where
  \<comment> \<open>Lines put together with a line feed between them.\<close>
  "text_lines ls = join [CHR 0x0A] ls"

definition ticket_node :: json where
  "ticket_node = JObject [(''identifier'', JString ''ENG-42'')]"

definition ticket_node_text :: string where
  "ticket_node_text =
     text_lines [''{'',
                 ''  '' @ quoted ''identifier'' @ '': '' @ quoted ''ENG-42'',
                 ''}'']"

definition one_node_response_text :: string where
  "one_node_response_text =
     text_lines [''{'',
                 ''  '' @ quoted ''data'' @ '': {'',
                 ''    '' @ quoted ''issues'' @ '': {'',
                 ''      '' @ quoted ''nodes'' @ '': ['',
                 ''        {'',
                 ''          '' @ quoted ''identifier'' @ '': '' @ quoted ''ENG-42'',
                 ''        }'',
                 ''      ]'',
                 ''    }'',
                 ''  }'',
                 ''}'']"

definition sample_runtime :: runtime where
  "sample_runtime =
     \<lparr>json_loads = (\<lambda>text.
        if text = mcp_config_text
        then Some (JObject [(''authMode'', JString ''mcp''), (''envFile'', JInt 5)])
        else if text = team_config_text
        then Some (JObject [(''teamKey'', JString ''ENG''), (''workspace'', JString ''acme'')])
        else None),
      json_dumps = (\<lambda>v.
        if v = sample_response [ticket_node] then one_node_response_text
        else if v = ticket_node then ticket_node_text
        else ''{}''),
      float_of_int = (\<lambda>n. Some (of_int n)),
      int_max_str_digits = 4300,
      urlopen = (\<lambda>r. Unreachable)\<rparr>"


definition sample_world :: "(string \<times> string) list \<Rightarrow> (string \<times> string) list \<Rightarrow> world" where
  \<comment> \<open>A world with the files and the environment variables listed.\<close>
  "sample_world fs vars = \<lparr>files = map_of fs, environ = map_of vars, stdout = []\<rparr>"


section \<open>Facts about trimming\<close>

lemma strip_with_split:
  "dropWhile P s = strip_with P s @ rev (takeWhile P (rev (dropWhile P s)))"
proof -
  let ?m = "dropWhile P s"
  have "rev (rev ?m) = rev (takeWhile P (rev ?m) @ dropWhile P (rev ?m))"
    by (simp only: takeWhile_dropWhile_id)
  then have "?m = rev (dropWhile P (rev ?m)) @ rev (takeWhile P (rev ?m))"
    by (simp only: rev_append rev_rev_ident)
  then show ?thesis by (simp only: strip_with_def)
qed

lemma strip_with_decomp:
  "s = takeWhile P s @ strip_with P s @ rev (takeWhile P (rev (dropWhile P s)))"
proof -
  have "s = takeWhile P s @ dropWhile P s" by simp
  then show ?thesis using strip_with_split [of P s] by simp
qed

lemma list_all_takeWhile: "list_all P (takeWhile P xs)"
  by (induction xs) simp_all

lemma strip_with_hd: "strip_with P s \<noteq> [] \<Longrightarrow> \<not> P (hd (strip_with P s))"
proof -
  assume ne: "strip_with P s \<noteq> []"
  have "dropWhile P s = [] \<Longrightarrow> strip_with P s = []"
    by (auto simp add: strip_with_def dest: set_dropWhileD)
  then have m: "dropWhile P s \<noteq> []" using ne by blast
  then have hm: "\<not> P (hd (dropWhile P s))" by (rule hd_dropWhile)
  have "hd (dropWhile P s) = hd (strip_with P s)"
    using ne hd_append2 [of "strip_with P s" "rev (takeWhile P (rev (dropWhile P s)))"]
      strip_with_split [of P s] by simp
  then show ?thesis using hm by simp
qed

lemma strip_with_last: "strip_with P s \<noteq> [] \<Longrightarrow> \<not> P (last (strip_with P s))"
proof -
  assume ne: "strip_with P s \<noteq> []"
  then have d: "dropWhile P (rev (dropWhile P s)) \<noteq> []" by (simp add: strip_with_def)
  then have "\<not> P (hd (dropWhile P (rev (dropWhile P s))))" by (rule hd_dropWhile)
  then show ?thesis using d by (simp add: strip_with_def last_rev)
qed

lemma stripped_of_strip_with: "stripped_of P s (strip_with P s)"
proof -
  have "list_all P (takeWhile P s)" by (rule list_all_takeWhile)
  moreover have "list_all P (rev (takeWhile P (rev (dropWhile P s))))"
    using list_all_takeWhile [of P "rev (dropWhile P s)"] by (simp add: list_all_iff)
  moreover have "strip_with P s \<noteq> [] \<longrightarrow>
      \<not> P (hd (strip_with P s)) \<and> \<not> P (last (strip_with P s))"
    using strip_with_hd [of P s] strip_with_last [of P s] by blast
  ultimately show ?thesis
    unfolding stripped_of_def using strip_with_decomp [of s P] by blast
qed




lemmas strip_defs = strip_def strip_chars_def strip_with_def is_space_def


section \<open>Properties of the authorization header\<close>

text \<open>
  C1. For every token and every scheme hint: when the hint, trimmed and lowercased, is
  \<^verbatim>\<open>bearer\<close> or \<^verbatim>\<open>oauth\<close>, the header value is the token prefixed with \<^verbatim>\<open>Bearer \<close>, unless
  the lowercased token already starts with \<^verbatim>\<open>bearer \<close>, in which case it is the token
  itself; when the hint normalizes to \<^verbatim>\<open>raw\<close> or \<^verbatim>\<open>token\<close>, the header value is the
  token itself. (An empty hint normalizes to none of the four words.)
\<close>

theorem format_auth_header_known_hint:
  "(lower (strip hint) \<in> {''bearer'', ''oauth''} \<longrightarrow>
      format_auth_header tok (Some hint) =
        (if startswith (lower tok) ''bearer '' then tok else ''Bearer '' @ tok))
   \<and> (lower (strip hint) \<in> {''raw'', ''token''} \<longrightarrow>
      format_auth_header tok (Some hint) = tok)"
proof -
  have e: "lower (strip []) = []"
    by (simp add: lower_def strip_def strip_with_def)
  show ?thesis
  proof (cases "hint = []")
    case True
    then show ?thesis using e by simp
  next
    case False
    then show ?thesis by (auto simp add: format_auth_header_def Let_def)
  qed
qed

theorem format_auth_header_known_hint_witness:
  "lower (strip '' OAuth '') \<in> {''bearer'', ''oauth''}
   \<and> format_auth_header ''abc123'' (Some '' OAuth '') = ''Bearer abc123''
   \<and> format_auth_header ''BEARER abc123'' (Some '' OAuth '') = ''BEARER abc123''
   \<and> lower (strip ''Raw'') \<in> {''raw'', ''token''}
   \<and> format_auth_header ''Bearer abc123'' (Some ''Raw'') = ''Bearer abc123''"
proof -
  have h1: "lower (strip '' OAuth '') \<in> {''bearer'', ''oauth''}"
    by (simp add: lower_def strip_defs lower_char_def char_of_eq_iff)
  have h2: "lower (strip ''Raw'') \<in> {''raw'', ''token''}"
    by (simp add: lower_def strip_defs lower_char_def char_of_eq_iff)
  have p1: "\<not> startswith (lower ''abc123'') ''bearer ''"
    by (simp add: lower_def startswith_def lower_char_def)
  have p2: "startswith (lower ''BEARER abc123'') ''bearer ''"
    by (simp add: lower_def startswith_def lower_char_def char_of_eq_iff)
  show ?thesis
    using h1 h2 p1 p2
      format_auth_header_known_hint [of "'' OAuth ''" "''abc123''"]
      format_auth_header_known_hint [of "'' OAuth ''" "''BEARER abc123''"]
      format_auth_header_known_hint [of "''Raw''" "''Bearer abc123''"]
    by simp
qed

text \<open>
  C5. Without a scheme hint (\<^verbatim>\<open>None\<close>, or the empty string, which Python treats as absent)
  the header value is the token itself, whatever the token looks like: nothing is ever
  prefixed.
\<close>

theorem format_auth_header_no_hint:
  "format_auth_header tok None = tok \<and> format_auth_header tok (Some []) = tok"
  by (simp add: format_auth_header_def)

theorem format_auth_header_no_hint_witness:
  "format_auth_header ''abc123'' None = ''abc123''
   \<and> format_auth_header ''bearer abc123'' None = ''bearer abc123''
   \<and> format_auth_header ''abc 123'' (Some []) = ''abc 123''"
  using format_auth_header_no_hint [of "''abc123''"]
    format_auth_header_no_hint [of "''bearer abc123''"]
    format_auth_header_no_hint [of "''abc 123''"]
  by simp

text \<open>
  C10. A scheme hint whose trimmed, lowercased form is none of \<^verbatim>\<open>bearer\<close>, \<^verbatim>\<open>oauth\<close>,
  \<^verbatim>\<open>raw\<close>, \<^verbatim>\<open>token\<close> leaves the token unchanged, exactly as a missing hint does; no error
  is raised.
\<close>

theorem format_auth_header_unknown_hint:
  "lower (strip hint) \<notin> {''bearer'', ''oauth'', ''raw'', ''token''} \<Longrightarrow>
     format_auth_header tok (Some hint) = tok
     \<and> format_auth_header tok (Some hint) = format_auth_header tok None"
  by (simp add: format_auth_header_def Let_def)

theorem format_auth_header_unknown_hint_witness:
  "lower (strip ''BEARER_TOKEN'') \<notin> {''bearer'', ''oauth'', ''raw'', ''token''}
   \<and> format_auth_header ''abc123'' (Some ''BEARER_TOKEN'') = ''abc123''
   \<and> lower (strip ''basic'') \<notin> {''bearer'', ''oauth'', ''raw'', ''token''}
   \<and> format_auth_header ''abc123'' (Some ''basic'') = ''abc123''"
proof -
  have h1: "lower (strip ''BEARER_TOKEN'') \<notin> {''bearer'', ''oauth'', ''raw'', ''token''}"
    by (simp add: lower_def strip_defs lower_char_def char_of_eq_iff)
  have h2: "lower (strip ''basic'') \<notin> {''bearer'', ''oauth'', ''raw'', ''token''}"
    by (simp add: lower_def strip_defs lower_char_def char_of_eq_iff)
  show ?thesis
    using h1 h2
      format_auth_header_unknown_hint [OF h1, of "''abc123''"]
      format_auth_header_unknown_hint [OF h2, of "''abc123''"]
    by simp
qed


section \<open>Properties of the identifier parser\<close>


lemma int_of_digits_snoc:
  "int_of_digits (ds @ [d]) = 10 * int_of_digits ds + (of_char d - 48)"
  by (simp add: int_of_digits_def)



lemma int_limit_default:
  "int_max_str_digits rt = 4300 \<Longrightarrow> int_limit_exceeded rt n \<longleftrightarrow> 4300 < n"
  by (auto simp add: int_limit_exceeded_def)

lemma int_limit_short: "n \<le> 640 \<Longrightarrow> \<not> int_limit_exceeded rt n"
  by (simp add: int_limit_exceeded_def)









section \<open>Properties of the Env Loader\<close>

lemma env_line_Some:
  assumes "env_line raw = Some (k, v)"
  shows "CHR ''='' \<in> set (env_body raw)
     \<and> k = strip (takeWhile (\<lambda>c. c \<noteq> CHR ''='') (env_body raw))
     \<and> v = strip_chars [CHR 0x27] (strip_chars [CHR 0x22]
              (strip (tl (dropWhile (\<lambda>c. c \<noteq> CHR ''='') (env_body raw)))))"
  using assms by (auto simp add: env_line_def Let_def split: if_splits)

lemma env_line_kept:
  "env_line raw \<noteq> None \<longleftrightarrow>
     strip raw \<noteq> [] \<and> \<not> startswith (strip raw) ''#'' \<and> CHR ''='' \<in> set (env_body raw)"
  by (simp add: env_line_def Let_def)

lemma split_at_first:
  assumes "x \<in> set xs"
  shows "xs = takeWhile (\<lambda>c. c \<noteq> x) xs @ [x] @ tl (dropWhile (\<lambda>c. c \<noteq> x) xs)
         \<and> x \<notin> set (takeWhile (\<lambda>c. c \<noteq> x) xs)"
proof -
  have ne: "dropWhile (\<lambda>c. c \<noteq> x) xs \<noteq> []" using assms by (simp add: dropWhile_eq_Nil_conv)
  then have "hd (dropWhile (\<lambda>c. c \<noteq> x) xs) = x"
    using hd_dropWhile [of "\<lambda>c. c \<noteq> x" xs] by simp
  then have "dropWhile (\<lambda>c. c \<noteq> x) xs = x # tl (dropWhile (\<lambda>c. c \<noteq> x) xs)"
    using ne by (metis list.collapse)
  then have "xs = takeWhile (\<lambda>c. c \<noteq> x) xs @ x # tl (dropWhile (\<lambda>c. c \<noteq> x) xs)"
    by (metis takeWhile_dropWhile_id)
  moreover have "x \<notin> set (takeWhile (\<lambda>c. c \<noteq> x) xs)"
    by (auto dest: set_takeWhileD)
  ultimately show ?thesis by simp
qed

lemma stripped_of_unique:
  assumes "stripped_of P s t"
  shows "t = strip_with P s"
proof -
  from assms obtain pre post where s: "s = pre @ t @ post"
    and pre: "\<forall>x\<in>set pre. P x" and post: "\<forall>x\<in>set post. P x"
    and ends: "t \<noteq> [] \<longrightarrow> \<not> P (hd t) \<and> \<not> P (last t)"
    by (auto simp add: stripped_of_def list_all_iff)
  show ?thesis
  proof (cases "t = []")
    case True
    then have "\<forall>x\<in>set s. P x" using s pre post by auto
    then have d: "dropWhile P s = []" by simp
    have "strip_with P s = rev (dropWhile P (rev []))" unfolding strip_with_def d ..
    then show ?thesis using True by simp
  next
    case False
    then obtain h r where t: "t = h # r" by (cases t) auto
    have nh: "\<not> P h" using ends t by simp
    have 1: "dropWhile P s = t @ post"
      using pre nh by (simp add: s t dropWhile_append2)
    have nl: "\<not> P (hd (rev t))" using ends False by (simp add: hd_rev)
    obtain h' r' where rt: "rev t = h' # r'" using False by (cases "rev t") auto
    have "dropWhile P (rev post @ rev t) = dropWhile P (rev t)"
      by (rule dropWhile_append2) (use post in auto)
    then have 2: "dropWhile P (rev post @ rev t) = rev t"
      using nl by (simp add: rt)
    show ?thesis by (simp add: strip_with_def 1 2)
  qed
qed

text \<open>
  C4, as amended. For every line the Env Loader keeps (\<open>env_line_kept\<close> says which), the
  line (trimmed, and without a leading \<^verbatim>\<open>export \<close>) is a key text free of \<^verbatim>\<open>=\<close>, the
  first \<^verbatim>\<open>=\<close>, and a value text. The key stored is the trimmed key text. The value stored is the value text trimmed, then without
  every leading and every trailing double quote, then without every leading and every
  trailing single quote: the quotes removed need not come in pairs, and both kinds can go.
  By \<open>stripped_of_unique\<close> each of the three steps has exactly one result.
\<close>

theorem env_line_value:
  assumes "env_line raw = Some (k, v)"
  shows "\<exists>key_text val_text a b.
           env_body raw = key_text @ ''='' @ val_text
         \<and> CHR ''='' \<notin> set key_text
         \<and> k = strip key_text
         \<and> stripped_of is_space val_text a
         \<and> stripped_of (\<lambda>c. c = CHR 0x22) a b
         \<and> stripped_of (\<lambda>c. c = CHR 0x27) b v"
proof -
  let ?body = "env_body raw"
  let ?key = "takeWhile (\<lambda>c. c \<noteq> CHR ''='') ?body"
  let ?val = "tl (dropWhile (\<lambda>c. c \<noteq> CHR ''='') ?body)"
  let ?a = "strip ?val"
  let ?b = "strip_chars [CHR 0x22] ?a"
  from env_line_Some [OF assms] have m: "CHR ''='' \<in> set ?body" and k: "k = strip ?key"
    and v: "v = strip_chars [CHR 0x27] ?b" by simp_all
  have 1: "?body = ?key @ ''='' @ ?val" and 2: "CHR ''='' \<notin> set ?key"
    using split_at_first [OF m] by simp_all
  have 3: "stripped_of is_space ?val ?a"
    unfolding strip_def by (rule stripped_of_strip_with)
  have 4: "stripped_of (\<lambda>c. c = CHR 0x22) ?a ?b"
    using stripped_of_strip_with [of "\<lambda>c. c = CHR 0x22" ?a] by (simp add: strip_chars_def)
  have 5: "stripped_of (\<lambda>c. c = CHR 0x27) ?b v"
    using stripped_of_strip_with [of "\<lambda>c. c = CHR 0x27" ?b] by (simp add: strip_chars_def v)
  from 1 2 k 3 4 5 show ?thesis by blast
qed

theorem env_line_value_witness:
  "env_line (''export LINEAR_API_TOKEN = '' @ [CHR 0x22] @ ''secret-value'' @ [CHR 0x22])
     = Some (''LINEAR_API_TOKEN'', ''secret-value'')
   \<and> (\<exists>key_text val_text a b.
         env_body (''export LINEAR_API_TOKEN = '' @ [CHR 0x22] @ ''secret-value'' @ [CHR 0x22])
           = key_text @ ''='' @ val_text
       \<and> CHR ''='' \<notin> set key_text
       \<and> ''LINEAR_API_TOKEN'' = strip key_text
       \<and> stripped_of is_space val_text a
       \<and> stripped_of (\<lambda>c. c = CHR 0x22) a b
       \<and> stripped_of (\<lambda>c. c = CHR 0x27) b ''secret-value'')"
proof -
  have h: "env_line (''export LINEAR_API_TOKEN = '' @ [CHR 0x22] @ ''secret-value'' @ [CHR 0x22])
     = Some (''LINEAR_API_TOKEN'', ''secret-value'')"
    by (simp add: env_line_def env_body_def strip_defs startswith_def)
  show ?thesis using h env_line_value [OF h] by blast
qed

text \<open>
  C4 as stated fails. The value written \<^verbatim>\<open>""x""\<close> is stored as \<^verbatim>\<open>x\<close>, where removing one
  matching pair would keep \<^verbatim>\<open>"x"\<close>; and the unmatched quote of \<^verbatim>\<open>"x\<close> is removed, where
  removing a matching pair would leave the text as it is.
\<close>

theorem env_line_quotes_counterexample:
  "env_line (''K='' @ [CHR 0x22, CHR 0x22] @ ''x'' @ [CHR 0x22, CHR 0x22]) = Some (''K'', ''x'')
   \<and> env_line (''K='' @ [CHR 0x22, CHR 0x22] @ ''x'' @ [CHR 0x22, CHR 0x22])
       \<noteq> Some (''K'', strip_one_pair (CHR 0x27) (strip_one_pair (CHR 0x22)
                 (strip ([CHR 0x22, CHR 0x22] @ ''x'' @ [CHR 0x22, CHR 0x22]))))
   \<and> env_line (''K='' @ [CHR 0x22] @ ''x'') = Some (''K'', ''x'')
   \<and> env_line (''K='' @ [CHR 0x22] @ ''x'')
       \<noteq> Some (''K'', strip_one_pair (CHR 0x27) (strip_one_pair (CHR 0x22)
                 (strip ([CHR 0x22] @ ''x''))))"
  by (simp add: env_line_def env_body_def strip_defs startswith_def strip_one_pair_def)

text \<open>
  The example of the specification: a comment line, a blank line and an \<^verbatim>\<open>export\<close> line
  with a double-quoted value.
\<close>

lemma load_env_file_example:
  "load_env_file
     \<lparr>files = [''.env'' \<mapsto> ''# token'' @ [CHR 0x0A] @ [CHR 0x0A]
                 @ ''export LINEAR_API_TOKEN='' @ [CHR 0x22] @ ''secret-value'' @ [CHR 0x22, CHR 0x0A]],
      environ = Map.empty, stdout = []\<rparr> (Some ''.env'')
   = [(''LINEAR_API_TOKEN'', ''secret-value'')]"
  by (simp add: load_env_file_def splitlines_def is_linebreak_def env_line_def env_body_def
        strip_defs startswith_def)


section \<open>Properties of error surfacing\<close>

lemma collect_as_str: "collect as_str (map JString xs) = Inr xs"
  by (induction xs) simp_all

lemma py_join_strings: "py_join sep (map JString xs) = Inr (join sep xs)"
  by (simp add: py_join_def and_then_def collect_as_str)

lemma collect_text_field:
  "list_all (has_text_field key) es \<Longrightarrow>
     collect (get_field key (JString dflt)) es
       = Inr (map (\<lambda>e. JString (text_field key dflt e)) es)"
proof (induction es)
  case Nil
  then show ?case by simp
next
  case (Cons e es)
  then obtain kvs where e: "e = JObject kvs"
    by (cases e) (simp_all add: has_text_field_def)
  have "get_field key (JString dflt) e = Inr (JString (text_field key dflt e))"
    using Cons.prems
    by (auto simp add: e has_text_field_def text_field_def dict_get_def
          split: option.splits json.splits)
  then show ?case using Cons by simp
qed

lemma joined_fields:
  assumes "list_all (has_text_field key) es"
  shows "and_then (collect (get_field key (JString dflt)) es) (\<lambda>vs.
           and_then (py_join sep vs) f)
         = f (join sep (map (text_field key dflt) es))"
proof -
  have "py_join sep (map (\<lambda>e. JString (text_field key dflt e)) es)
        = Inr (join sep (map (text_field key dflt) es))"
    using py_join_strings [of sep "map (text_field key dflt) es"] by (simp add: comp_def)
  then show ?thesis
    by (simp add: collect_text_field [OF assms] and_then_def)
qed

text \<open>
  C9. \<^verbatim>\<open>raise_on_errors\<close> returns normally when the response has no \<^verbatim>\<open>errors\<close> entry or an
  empty error list. When \<^verbatim>\<open>errors\<close> is a non-empty list of entries of the GraphQL shape (each
  an object whose \<^verbatim>\<open>message\<close>, if present, is a string), it fails with a \<^verbatim>\<open>RuntimeError\<close>
  whose message is \<^verbatim>\<open>GraphQL error: \<close> followed by the messages of the entries joined by
  \<^verbatim>\<open>; \<close>, with \<^verbatim>\<open>Unknown error\<close> for an entry that has no message.
\<close>

theorem raise_on_errors_cases:
  "((map_of r ''errors'' = None \<or> map_of r ''errors'' = Some (JArray [])) \<longrightarrow>
      raise_on_errors (JObject r) = Inr ())
   \<and> ((map_of r ''errors'' = Some (JArray es) \<and> es \<noteq> []
        \<and> list_all (has_text_field ''message'') es) \<longrightarrow>
      raise_on_errors (JObject r) =
        Inl (RuntimeError (''GraphQL error: ''
               @ join ''; '' (map (text_field ''message'' ''Unknown error'') es))))"
proof (intro conjI impI)
  assume "map_of r ''errors'' = None \<or> map_of r ''errors'' = Some (JArray [])"
  then show "raise_on_errors (JObject r) = Inr ()"
    by (auto simp add: raise_on_errors_def and_then_def dict_get_def)
next
  assume a: "map_of r ''errors'' = Some (JArray es) \<and> es \<noteq> []
        \<and> list_all (has_text_field ''message'') es"
  then have g: "get_field ''errors'' JNull (JObject r) = Inr (JArray es)"
    by (simp add: dict_get_def)
  have wf: "list_all (has_text_field ''message'') es" using a by simp
  show "raise_on_errors (JObject r) =
        Inl (RuntimeError (''GraphQL error: ''
               @ join ''; '' (map (text_field ''message'' ''Unknown error'') es)))"
    unfolding raise_on_errors_def g
    using a by (simp add: and_then_def [of "Inr (JArray es)"] and_then_def [of "Inr es"]
                  joined_fields [OF wf])
qed

theorem raise_on_errors_cases_witness:
  "map_of [(''data'', JNull)] ''errors'' = None
   \<and> raise_on_errors (JObject [(''data'', JNull)]) = Inr ()
   \<and> raise_on_errors (JObject [(''errors'', JArray [])]) = Inr ()
   \<and> list_all (has_text_field ''message'')
         [JObject [(''message'', JString ''bad token'')],
          JObject [(''message'', JString ''rate limited'')],
          JObject [(''path'', JArray [])]]
   \<and> raise_on_errors
         (JObject [(''errors'',
            JArray [JObject [(''message'', JString ''bad token'')],
                    JObject [(''message'', JString ''rate limited'')],
                    JObject [(''path'', JArray [])]])])
       = Inl (RuntimeError ''GraphQL error: bad token; rate limited; Unknown error'')"
  using raise_on_errors_cases [of "[(''data'', JNull)]"]
    raise_on_errors_cases [of "[(''errors'', JArray [])]"]
    raise_on_errors_cases
      [of "[(''errors'',
            JArray [JObject [(''message'', JString ''bad token'')],
                    JObject [(''message'', JString ''rate limited'')],
                    JObject [(''path'', JArray [])]])]"
          "[JObject [(''message'', JString ''bad token'')],
            JObject [(''message'', JString ''rate limited'')],
            JObject [(''path'', JArray [])]]"]
  by (simp add: has_text_field_def text_field_def)


section \<open>Properties of the disambiguation\<close>

lemma finish_issue_disambiguate:
  assumes "truthy_str (arg_identifier a)" and "raise_on_errors response = Inr ()"
  shows "finish_issue rt a response w =
      and_then (disambiguate (arg_text (arg_identifier a)) response)
        (\<lambda>_. Inr (write_output rt response (arg_out a) w))"
  using assms by (simp add: finish_issue_def and_then_def)

lemma disambiguate_nodes:
  assumes "issue_nodes response = Inr (JArray nodes)"
  shows "disambiguate identifier response =
      (if length nodes = 0
       then Inl (RuntimeError (''No issue found for identifier '' @ identifier))
       else if 1 < length nodes then
         and_then (collect (get_field ''identifier'' (JString ''?'')) nodes) (\<lambda>ids.
         and_then (py_join '', '' ids) (\<lambda>identifiers.
           Inl (RuntimeError (''Multiple issues matched identifier. Use --id instead. ''
                              @ ''Matches: '' @ identifiers))))
       else Inr ())"
  by (simp add: disambiguate_def assms and_then_def [of "Inr (JArray nodes)"]
        and_then_def [of "Inr (length nodes)"] and_then_def [of "Inr nodes"])

lemma write_output_effect:
  "write_output rt data out_path w =
     (if \<not> truthy_str out_path \<or> out_path = Some ''-''
      then w\<lparr>stdout := stdout w @ [json_dumps rt data]\<rparr>
      else w\<lparr>files := (files w)(arg_text out_path \<mapsto> json_dumps rt data @ [CHR 0x0A])\<rparr>)"
  by (simp add: write_output_def print_line_def Let_def)

lemma finish_issue_single:
  assumes "truthy_str (arg_identifier a)" and "raise_on_errors response = Inr ()"
    and "issue_nodes response = Inr (JArray [n])"
  shows "finish_issue rt a response w = Inr (write_output rt response (arg_out a) w)"
  by (simp add: finish_issue_disambiguate [OF assms(1,2)] disambiguate_nodes [OF assms(3)]
        and_then_def)

lemma sample_response_passes:
  "raise_on_errors (sample_response nodes) = Inr ()"
  "issue_nodes (sample_response nodes) = Inr (JArray nodes)"
  by (simp_all add: raise_on_errors_def issue_nodes_def sample_response_def and_then_def
        dict_get_def)

lemma sample_texts:
  "json_dumps sample_runtime (sample_response [ticket_node]) = one_node_response_text"
  "json_dumps sample_runtime ticket_node = ticket_node_text"
  "one_node_response_text \<noteq> ticket_node_text"
  by (simp_all add: sample_runtime_def sample_response_def ticket_node_def
        one_node_response_text_def ticket_node_text_def text_lines_def quoted_def)

text \<open>
  C7, as amended. On the identifier path, for a response that passed \<^verbatim>\<open>raise_on_errors\<close> and
  whose \<^verbatim>\<open>data.issues.nodes\<close> is the list \<open>nodes\<close>: with no node the command fails with a
  \<^verbatim>\<open>RuntimeError\<close> that names the identifier as given; with exactly one node it succeeds,
  and what it puts out is the whole decoded response as the JSON printer prints it
  (appended to standard output when \<^verbatim>\<open>--out\<close> is missing, empty or \<^verbatim>\<open>-\<close>, otherwise stored
  with a final line feed in the file \<^verbatim>\<open>--out\<close> names), not the node taken out of it; with
  more than one node (each an object whose \<^verbatim>\<open>identifier\<close>, if present, is a string) it fails
  with a \<^verbatim>\<open>RuntimeError\<close> that tells the caller to use \<^verbatim>\<open>--id\<close> and lists the identifiers of
  all nodes joined by \<^verbatim>\<open>, \<close>, with \<^verbatim>\<open>?\<close> for a node that has none.
\<close>

theorem disambiguation_outcomes:
  assumes "truthy_str (arg_identifier a)"
    and "raise_on_errors response = Inr ()"
    and "issue_nodes response = Inr (JArray nodes)"
  shows "(nodes = [] \<longrightarrow>
            finish_issue rt a response w =
              Inl (RuntimeError (''No issue found for identifier ''
                                 @ arg_text (arg_identifier a))))
       \<and> (length nodes = 1 \<longrightarrow>
            finish_issue rt a response w =
              Inr (if \<not> truthy_str (arg_out a) \<or> arg_out a = Some ''-''
                   then w\<lparr>stdout := stdout w @ [json_dumps rt response]\<rparr>
                   else w\<lparr>files := (files w)(arg_text (arg_out a) \<mapsto>
                                       json_dumps rt response @ [CHR 0x0A])\<rparr>))
       \<and> (1 < length nodes \<and> list_all (has_text_field ''identifier'') nodes \<longrightarrow>
            finish_issue rt a response w =
              Inl (RuntimeError (''Multiple issues matched identifier. Use --id instead. ''
                                 @ ''Matches: ''
                                 @ join '', '' (map (text_field ''identifier'' ''?'') nodes))))"
proof -
  note f = finish_issue_disambiguate [OF assms(1,2), of rt w]
  note d = disambiguate_nodes [OF assms(3), of "arg_text (arg_identifier a)"]
  show ?thesis
  proof (intro conjI impI)
    assume "nodes = []"
    then show "finish_issue rt a response w =
              Inl (RuntimeError (''No issue found for identifier ''
                                 @ arg_text (arg_identifier a)))"
      by (simp add: f d and_then_def)
  next
    assume "length nodes = 1"
    then obtain n where "nodes = [n]" by (cases nodes) auto
    then have "finish_issue rt a response w = Inr (write_output rt response (arg_out a) w)"
      using assms finish_issue_single by blast
    then show "finish_issue rt a response w =
              Inr (if \<not> truthy_str (arg_out a) \<or> arg_out a = Some ''-''
                   then w\<lparr>stdout := stdout w @ [json_dumps rt response]\<rparr>
                   else w\<lparr>files := (files w)(arg_text (arg_out a) \<mapsto>
                                       json_dumps rt response @ [CHR 0x0A])\<rparr>)"
      by (simp only: write_output_effect)
  next
    assume m: "1 < length nodes \<and> list_all (has_text_field ''identifier'') nodes"
    then have wf: "list_all (has_text_field ''identifier'') nodes" by simp
    have "disambiguate (arg_text (arg_identifier a)) response =
        Inl (RuntimeError (''Multiple issues matched identifier. Use --id instead. ''
                           @ ''Matches: ''
                           @ join '', '' (map (text_field ''identifier'' ''?'') nodes)))"
      using m by (auto simp add: d joined_fields [OF wf])
    then show "finish_issue rt a response w =
              Inl (RuntimeError (''Multiple issues matched identifier. Use --id instead. ''
                                 @ ''Matches: ''
                                 @ join '', '' (map (text_field ''identifier'' ''?'') nodes)))"
      by (simp add: f and_then_def)
  qed
qed

theorem disambiguation_outcomes_witness:
  "truthy_str (arg_identifier sample_args)
   \<and> raise_on_errors (sample_response []) = Inr ()
   \<and> issue_nodes (sample_response []) = Inr (JArray [])
   \<and> finish_issue sample_runtime sample_args (sample_response []) (sample_world [] [])
      = Inl (RuntimeError ''No issue found for identifier ENG-42'')
   \<and> raise_on_errors (sample_response [ticket_node]) = Inr ()
   \<and> issue_nodes (sample_response [ticket_node]) = Inr (JArray [ticket_node])
   \<and> finish_issue sample_runtime sample_args (sample_response [ticket_node])
        (sample_world [] [])
      = Inr ((sample_world [] [])\<lparr>stdout := [one_node_response_text]\<rparr>)
   \<and> finish_issue sample_runtime (sample_args\<lparr>arg_out := Some ''out/issue.json''\<rparr>)
        (sample_response [ticket_node]) (sample_world [] [])
      = Inr ((sample_world [] [])\<lparr>files :=
               [''out/issue.json'' \<mapsto> one_node_response_text @ [CHR 0x0A]]\<rparr>)
   \<and> list_all (has_text_field ''identifier'')
        [JObject [(''identifier'', JString ''ENG-42'')],
         JObject [(''identifier'', JString ''ENGX-42'')],
         JObject [(''title'', JString ''untitled'')]]
   \<and> finish_issue sample_runtime sample_args
        (sample_response [JObject [(''identifier'', JString ''ENG-42'')],
                          JObject [(''identifier'', JString ''ENGX-42'')],
                          JObject [(''title'', JString ''untitled'')]]) (sample_world [] [])
      = Inl (RuntimeError
          ''Multiple issues matched identifier. Use --id instead. Matches: ENG-42, ENGX-42, ?'')"
proof -
  let ?a = "sample_args\<lparr>arg_out := Some ''out/issue.json''\<rparr>"
  have t: "truthy_str (arg_identifier sample_args)" and t': "truthy_str (arg_identifier ?a)"
    by (simp_all add: sample_args_def truthy_str_def)
  note e = sample_response_passes(1)
  note n = sample_response_passes(2)
  have i: "arg_text (arg_identifier sample_args) = ''ENG-42''" "arg_out sample_args = None"
    "arg_out ?a = Some ''out/issue.json''"
    by (simp_all add: sample_args_def arg_text_def)
  have r0: "finish_issue sample_runtime sample_args (sample_response []) (sample_world [] [])
      = Inl (RuntimeError ''No issue found for identifier ENG-42'')"
    using i disambiguation_outcomes [OF t e n, of "[]" sample_runtime "sample_world [] []"]
    by simp
  have r1: "finish_issue sample_runtime sample_args (sample_response [ticket_node])
        (sample_world [] [])
      = Inr ((sample_world [] [])\<lparr>stdout := [one_node_response_text]\<rparr>)"
    using i disambiguation_outcomes [OF t e n, of "[ticket_node]" sample_runtime
        "sample_world [] []"]
    by (simp add: truthy_str_def sample_texts(1)) (simp add: sample_world_def)
  have r1': "finish_issue sample_runtime ?a (sample_response [ticket_node]) (sample_world [] [])
      = Inr ((sample_world [] [])\<lparr>files :=
               [''out/issue.json'' \<mapsto> one_node_response_text @ [CHR 0x0A]]\<rparr>)"
    using i disambiguation_outcomes [OF t' e n, of "[ticket_node]" sample_runtime
        "sample_world [] []"]
    by (simp add: truthy_str_def arg_text_def sample_texts(1)) (simp add: sample_world_def)
  have wf: "list_all (has_text_field ''identifier'')
        [JObject [(''identifier'', JString ''ENG-42'')],
         JObject [(''identifier'', JString ''ENGX-42'')],
         JObject [(''title'', JString ''untitled'')]]"
    by (simp add: has_text_field_def)
  have r3: "finish_issue sample_runtime sample_args
        (sample_response [JObject [(''identifier'', JString ''ENG-42'')],
                          JObject [(''identifier'', JString ''ENGX-42'')],
                          JObject [(''title'', JString ''untitled'')]]) (sample_world [] [])
      = Inl (RuntimeError
          ''Multiple issues matched identifier. Use --id instead. Matches: ENG-42, ENGX-42, ?'')"
    using i wf disambiguation_outcomes [OF t e n,
        of "[JObject [(''identifier'', JString ''ENG-42'')],
             JObject [(''identifier'', JString ''ENGX-42'')],
             JObject [(''title'', JString ''untitled'')]]"
        sample_runtime "sample_world [] []"]
    by (simp add: text_field_def)
  show ?thesis using t e n r0 r1 r1' wf r3 by simp
qed

text \<open>
  C7 as stated fails in the case of one node. For the response whose only node is
  \<^verbatim>\<open>{"identifier": "ENG-42"}\<close> the command prints the eleven lines of the whole response; it
  does not print the three lines of that node.
\<close>

theorem disambiguation_one_node_counterexample:
  "issue_nodes (sample_response [ticket_node]) = Inr (JArray [ticket_node])
   \<and> finish_issue sample_runtime sample_args (sample_response [ticket_node])
        (sample_world [] [])
      = Inr ((sample_world [] [])\<lparr>stdout := [json_dumps sample_runtime
                                                   (sample_response [ticket_node])]\<rparr>)
   \<and> finish_issue sample_runtime sample_args (sample_response [ticket_node])
        (sample_world [] [])
      \<noteq> Inr ((sample_world [] [])\<lparr>stdout := [json_dumps sample_runtime ticket_node]\<rparr>)
   \<and> json_dumps sample_runtime (sample_response [ticket_node]) = one_node_response_text
   \<and> json_dumps sample_runtime ticket_node = ticket_node_text"
proof -
  have t: "truthy_str (arg_identifier sample_args)" and o: "arg_out sample_args = None"
    by (simp_all add: sample_args_def truthy_str_def)
  have "finish_issue sample_runtime sample_args (sample_response [ticket_node])
        (sample_world [] [])
      = Inr (write_output sample_runtime (sample_response [ticket_node])
               (arg_out sample_args) (sample_world [] []))"
    using t sample_response_passes by (rule finish_issue_single)
  then have r: "finish_issue sample_runtime sample_args (sample_response [ticket_node])
        (sample_world [] [])
      = Inr ((sample_world [] [])\<lparr>stdout := [json_dumps sample_runtime
                                                   (sample_response [ticket_node])]\<rparr>)"
    by (simp add: write_output_effect o truthy_str_def sample_world_def)
  have "(sample_world [] [])\<lparr>stdout := [json_dumps sample_runtime
                                              (sample_response [ticket_node])]\<rparr>
      \<noteq> (sample_world [] [])\<lparr>stdout := [json_dumps sample_runtime ticket_node]\<rparr>"
    using sample_texts(3) by (simp add: sample_texts(1,2) sample_world_def)
  then show ?thesis using r sample_response_passes(2) sample_texts(1,2) by simp
qed


section \<open>Properties of the init merge\<close>

lemma dict_update_other_key:
  "k \<notin> fst ` set other \<Longrightarrow> map_of (dict_update d other) k = map_of d k"
proof (induction other arbitrary: d)
  case Nil
  then show ?case by (simp add: dict_update_def)
next
  case (Cons p other)
  obtain k' v' where p: "p = (k', v')" by (cases p)
  have "map_of (dict_update (AList.update k' v' d) other) k = map_of (AList.update k' v' d) k"
    using Cons by simp
  then show ?case using Cons.prems by (simp add: dict_update_def p update_conv')
qed

lemma dict_update_new_value:
  "distinct (map fst other) \<Longrightarrow> (k, v) \<in> set other \<Longrightarrow>
     map_of (dict_update d other) k = Some v"
proof (induction other arbitrary: d)
  case Nil
  then show ?case by simp
next
  case (Cons p other)
  obtain k' v' where p: "p = (k', v')" by (cases p)
  have step: "dict_update d (p # other) = dict_update (AList.update k' v' d) other"
    by (simp add: dict_update_def p)
  show ?case
  proof (cases "(k, v) = p")
    case True
    then have "k \<notin> fst ` set other" using Cons.prems(1) p by auto
    then have "map_of (dict_update (AList.update k' v' d) other) k
               = map_of (AList.update k' v' d) k"
      by (rule dict_update_other_key)
    then show ?thesis using True p by (simp add: step [unfolded p] update_conv')
  next
    case False
    then have "(k, v) \<in> set other" using Cons.prems(2) by simp
    moreover have "distinct (map fst other)" using Cons.prems(1) by simp
    ultimately show ?thesis using Cons.IH by (simp add: step [unfolded p] p)
  qed
qed

lemma init_updates_keys:
  "map fst (init_updates a config) =
     [''workspace'', ''teamId'', ''teamKey'', ''projectId'', ''projectName'', ''boardUrl'',
      ''envFile'', ''authMode'', ''authScheme'', ''mcpServer'']"
  by (simp add: init_updates_def)

lemma clean_updates_distinct: "distinct (map fst (clean_updates (init_updates a config)))"
proof -
  have "distinct (map fst (init_updates a config))"
    by (simp add: init_updates_keys)
  then show ?thesis unfolding clean_updates_def by (rule distinct_map_filter)
qed

lemma main_init:
  assumes "arg_command a = Init" and "load_config rt w (arg_config a) = JObject config"
  shows "main rt a w = Inr (run_init rt a config w)"
  using assms by (simp add: main_def)

lemma run_init_file:
  "files (run_init rt a config w) (arg_config a)
     = Some (json_dumps rt (JObject (init_config a config)) @ [CHR 0x0A])"
  by (simp add: run_init_def print_line_def write_config_def)

text \<open>
  C8. The surviving updates of \<^verbatim>\<open>init\<close> are exactly the candidate entries with a truthy
  value. A key that is not among them has in the merged config the value it had in the
  loaded config (or is absent as before); a key among them has its new value; and the
  merged config is what \<^verbatim>\<open>init\<close> writes to the config path.
\<close>

theorem init_merge_frame:
  "((k, v) \<in> set (clean_updates (init_updates a config)) \<longleftrightarrow>
       (k, v) \<in> set (init_updates a config) \<and> truthy v)
   \<and> (k \<notin> fst ` set (clean_updates (init_updates a config)) \<longrightarrow>
       map_of (init_config a config) k = map_of config k)
   \<and> ((k, v) \<in> set (clean_updates (init_updates a config)) \<longrightarrow>
       map_of (init_config a config) k = Some v)
   \<and> (arg_command a = Init \<and> load_config rt w (arg_config a) = JObject config \<longrightarrow>
       (\<exists>w'. main rt a w = Inr w'
          \<and> files w' (arg_config a)
              = Some (json_dumps rt (JObject (init_config a config)) @ [CHR 0x0A])))"
proof (intro conjI impI)
  show "(k, v) \<in> set (clean_updates (init_updates a config)) \<longleftrightarrow>
       (k, v) \<in> set (init_updates a config) \<and> truthy v"
    by (auto simp add: clean_updates_def)
next
  assume "k \<notin> fst ` set (clean_updates (init_updates a config))"
  then show "map_of (init_config a config) k = map_of config k"
    unfolding init_config_def by (rule dict_update_other_key)
next
  assume "(k, v) \<in> set (clean_updates (init_updates a config))"
  then show "map_of (init_config a config) k = Some v"
    unfolding init_config_def using clean_updates_distinct dict_update_new_value by blast
next
  assume "arg_command a = Init \<and> load_config rt w (arg_config a) = JObject config"
  then show "\<exists>w'. main rt a w = Inr w'
          \<and> files w' (arg_config a)
              = Some (json_dumps rt (JObject (init_config a config)) @ [CHR 0x0A])"
    using main_init [of a rt w config] run_init_file [of rt a config w] by simp
qed

theorem init_merge_frame_witness:
  "(''teamId'', JString ''T1'') \<in> set (clean_updates (init_updates
        (sample_args\<lparr>arg_command := Init, arg_workspace := Some [], arg_team_id := Some ''T1''\<rparr>)
        [(''teamKey'', JString ''ENG''), (''workspace'', JString ''acme'')]))
   \<and> ''workspace'' \<notin> fst ` set (clean_updates (init_updates
        (sample_args\<lparr>arg_command := Init, arg_workspace := Some [], arg_team_id := Some ''T1''\<rparr>)
        [(''teamKey'', JString ''ENG''), (''workspace'', JString ''acme'')]))
   \<and> map_of (init_config
        (sample_args\<lparr>arg_command := Init, arg_workspace := Some [], arg_team_id := Some ''T1''\<rparr>)
        [(''teamKey'', JString ''ENG''), (''workspace'', JString ''acme'')]) ''teamId''
      = Some (JString ''T1'')
   \<and> map_of (init_config
        (sample_args\<lparr>arg_command := Init, arg_workspace := Some [], arg_team_id := Some ''T1''\<rparr>)
        [(''teamKey'', JString ''ENG''), (''workspace'', JString ''acme'')]) ''workspace''
      = Some (JString ''acme'')
   \<and> (\<exists>w'. main sample_runtime
        (sample_args\<lparr>arg_command := Init, arg_workspace := Some [], arg_team_id := Some ''T1''\<rparr>)
        (sample_world [(''.linear-task-planner.json'', team_config_text)] []) = Inr w'
      \<and> files w' ''.linear-task-planner.json''
         = Some (json_dumps sample_runtime (JObject (init_config
        (sample_args\<lparr>arg_command := Init, arg_workspace := Some [], arg_team_id := Some ''T1''\<rparr>)
        [(''teamKey'', JString ''ENG''), (''workspace'', JString ''acme'')])) @ [CHR 0x0A]))"
proof -
  let ?a = "sample_args\<lparr>arg_command := Init, arg_workspace := Some [], arg_team_id := Some ''T1''\<rparr>"
  let ?c = "[(''teamKey'', JString ''ENG''), (''workspace'', JString ''acme'')]"
  let ?w = "sample_world [(''.linear-task-planner.json'', team_config_text)] []"
  have c: "clean_updates (init_updates ?a ?c) = [(''teamId'', JString ''T1'')]"
    by (simp add: clean_updates_def init_updates_def sample_args_def of_arg_def py_or_def
          dict_get_def)
  have h1: "(''teamId'', JString ''T1'') \<in> set (clean_updates (init_updates ?a ?c))"
    and h2: "''workspace'' \<notin> fst ` set (clean_updates (init_updates ?a ?c))"
    by (simp_all add: c)
  have h3: "arg_command ?a = Init" and p: "arg_config ?a = ''.linear-task-planner.json''"
    by (simp_all add: sample_args_def)
  have h4: "load_config sample_runtime ?w (arg_config ?a) = JObject ?c"
    by (simp add: load_config_def sample_args_def sample_runtime_def sample_world_def
          mcp_config_text_def team_config_text_def quoted_def)
  show ?thesis
    using h1 h2 h3 h4 p
      init_merge_frame [of "''teamId''" "JString ''T1''" ?a ?c sample_runtime ?w]
      init_merge_frame [of "''workspace''" "JString ''acme''" ?a ?c sample_runtime ?w]
    by simp
qed

text \<open>
  A run of the merge: the empty \<^verbatim>\<open>--workspace\<close> leaves the stored workspace alone, the
  team key is overwritten in place, the team id is appended.
\<close>

lemma init_config_example:
  "init_config
     (sample_args\<lparr>arg_command := Init, arg_workspace := Some [], arg_team_id := Some ''T1'',
                  arg_team_key := Some ''OPS''\<rparr>)
     [(''teamKey'', JString ''ENG''), (''workspace'', JString ''acme'')]
   = [(''teamKey'', JString ''OPS''), (''workspace'', JString ''acme''), (''teamId'', JString ''T1'')]"
  by (simp add: init_config_def dict_update_def clean_updates_def init_updates_def
        sample_args_def of_arg_def py_or_def dict_get_def)


section \<open>Properties of the credential resolver\<close>

lemma main_command:
  assumes "arg_command a \<noteq> Init" and "load_config rt w (arg_config a) = JObject config"
  shows "main rt a w = run_command rt a config w"
  using assms by (simp add: main_def)

text \<open>
  C6. For every command other than \<^verbatim>\<open>init\<close>: when the loaded config has \<^verbatim>\<open>authMode\<close> equal
  to \<^verbatim>\<open>mcp\<close>, the run fails with the \<^verbatim>\<open>RuntimeError\<close> that points to MCP connectivity,
  whatever the command line, the environment, the files and the server are: no env file is
  looked for and no token is resolved before the failure.
\<close>

theorem mcp_short_circuit:
  assumes "arg_command a \<noteq> Init"
    and "load_config rt w (arg_config a) = JObject config"
    and "map_of config ''authMode'' = Some (JString ''mcp'')"
  shows "main rt a w =
     Inl (RuntimeError ''Auth mode is set to mcp. Use MCP connectivity for this workspace.'')"
proof -
  have "py_or (dict_get config ''authMode'' JNull) (JString ''token'') = JString ''mcp''"
    using assms(3) by (simp add: py_or_def dict_get_def)
  then have "run_command rt a config w =
     Inl (RuntimeError ''Auth mode is set to mcp. Use MCP connectivity for this workspace.'')"
    by (simp add: run_command_def)
  then show ?thesis using main_command [OF assms(1,2)] by simp
qed

theorem mcp_short_circuit_witness:
  "arg_command (sample_args\<lparr>arg_token := Some ''lin_api_key''\<rparr>) \<noteq> Init
   \<and> load_config sample_runtime
        (sample_world [(''.linear-task-planner.json'', mcp_config_text)]
                      [(''LINEAR_API_TOKEN'', ''lin_api_env'')])
        (arg_config (sample_args\<lparr>arg_token := Some ''lin_api_key''\<rparr>))
      = JObject [(''authMode'', JString ''mcp''), (''envFile'', JInt 5)]
   \<and> main sample_runtime (sample_args\<lparr>arg_token := Some ''lin_api_key''\<rparr>)
        (sample_world [(''.linear-task-planner.json'', mcp_config_text)]
                      [(''LINEAR_API_TOKEN'', ''lin_api_env'')])
      = Inl (RuntimeError ''Auth mode is set to mcp. Use MCP connectivity for this workspace.'')"
proof -
  have h1: "arg_command (sample_args\<lparr>arg_token := Some ''lin_api_key''\<rparr>) \<noteq> Init"
    by (simp add: sample_args_def)
  have h2: "load_config sample_runtime
        (sample_world [(''.linear-task-planner.json'', mcp_config_text)]
                      [(''LINEAR_API_TOKEN'', ''lin_api_env'')])
        (arg_config (sample_args\<lparr>arg_token := Some ''lin_api_key''\<rparr>))
      = JObject [(''authMode'', JString ''mcp''), (''envFile'', JInt 5)]"
    by (simp add: load_config_def sample_args_def sample_runtime_def sample_world_def)
  have h3: "map_of [(''authMode'', JString ''mcp''), (''envFile'', JInt 5)] ''authMode''
      = Some (JString ''mcp'')"
    by simp
  show ?thesis using h1 h2 mcp_short_circuit [OF h1 h2 h3] by simp
qed

lemma resolve_token_first:
  "first_non_empty [arg_token a, environ w ''LINEAR_API_TOKEN'',
                    map_of env_data ''LINEAR_API_TOKEN''] = Some t
   \<Longrightarrow> resolve_token a w env_data = Some t"
  by (cases "arg_token a"; cases "environ w ''LINEAR_API_TOKEN''";
      cases "map_of env_data ''LINEAR_API_TOKEN''")
     (auto simp add: resolve_token_def truthy_str_def split: if_splits)

lemma resolve_token_none:
  "first_non_empty [arg_token a, environ w ''LINEAR_API_TOKEN'',
                    map_of env_data ''LINEAR_API_TOKEN''] = None
   \<Longrightarrow> \<not> truthy_str (resolve_token a w env_data)"
  by (cases "arg_token a"; cases "environ w ''LINEAR_API_TOKEN''";
      cases "map_of env_data ''LINEAR_API_TOKEN''")
     (auto simp add: resolve_token_def truthy_str_def split: if_splits)

lemma first_non_empty_truthy: "first_non_empty xs = Some t \<Longrightarrow> t \<noteq> []"
  by (induction xs rule: first_non_empty.induct) (auto split: if_splits)

text \<open>
  C2. The token resolved is the first non-empty value among the \<^verbatim>\<open>--token\<close> argument, the
  environment variable \<^verbatim>\<open>LINEAR_API_TOKEN\<close> and the entry \<^verbatim>\<open>LINEAR_API_TOKEN\<close> of the
  mapping the Env Loader produced, in this order; when none of the three is non-empty the
  result is \<^verbatim>\<open>None\<close> or empty. For a command other than \<^verbatim>\<open>init\<close>, with no non-empty value
  the run fails with a configuration error (the missing-token error, or the MCP error when
  the config selects MCP), and with one the command goes on with exactly that token.
\<close>

theorem credential_precedence:
  "(first_non_empty [arg_token a, environ w ''LINEAR_API_TOKEN'',
                     map_of env_data ''LINEAR_API_TOKEN''] = Some t \<longrightarrow>
      resolve_token a w env_data = Some t)
   \<and> (first_non_empty [arg_token a, environ w ''LINEAR_API_TOKEN'',
                       map_of env_data ''LINEAR_API_TOKEN''] = None \<longrightarrow>
      \<not> truthy_str (resolve_token a w env_data))
   \<and> (arg_command a \<noteq> Init \<and> load_config rt w (arg_config a) = JObject config
       \<and> loaded_env w a config = Inr env_data
       \<and> first_non_empty [arg_token a, environ w ''LINEAR_API_TOKEN'',
                           map_of env_data ''LINEAR_API_TOKEN''] = None \<longrightarrow>
      main rt a w =
        Inl (RuntimeError
              (if py_or (dict_get config ''authMode'' JNull) (JString ''token'') = JString ''mcp''
               then ''Auth mode is set to mcp. Use MCP connectivity for this workspace.''
               else ''LINEAR_API_TOKEN not found in env or args'')))
   \<and> (arg_command a \<noteq> Init \<and> load_config rt w (arg_config a) = JObject config
       \<and> loaded_env w a config = Inr env_data
       \<and> py_or (dict_get config ''authMode'' JNull) (JString ''token'') \<noteq> JString ''mcp''
       \<and> first_non_empty [arg_token a, environ w ''LINEAR_API_TOKEN'',
                           map_of env_data ''LINEAR_API_TOKEN''] = Some t \<longrightarrow>
      main rt a w = dispatch rt a config w t (extra_headers_of a))"
proof (intro conjI impI)
  assume "first_non_empty [arg_token a, environ w ''LINEAR_API_TOKEN'',
                     map_of env_data ''LINEAR_API_TOKEN''] = Some t"
  then show "resolve_token a w env_data = Some t" by (rule resolve_token_first)
next
  assume "first_non_empty [arg_token a, environ w ''LINEAR_API_TOKEN'',
                     map_of env_data ''LINEAR_API_TOKEN''] = None"
  then show "\<not> truthy_str (resolve_token a w env_data)" by (rule resolve_token_none)
next
  assume h: "arg_command a \<noteq> Init \<and> load_config rt w (arg_config a) = JObject config
       \<and> loaded_env w a config = Inr env_data
       \<and> first_non_empty [arg_token a, environ w ''LINEAR_API_TOKEN'',
                           map_of env_data ''LINEAR_API_TOKEN''] = None"
  then have m: "main rt a w = run_command rt a config w" using main_command by blast
  have n: "\<not> truthy_str (resolve_token a w env_data)" using h resolve_token_none by blast
  show "main rt a w =
        Inl (RuntimeError
              (if py_or (dict_get config ''authMode'' JNull) (JString ''token'') = JString ''mcp''
               then ''Auth mode is set to mcp. Use MCP connectivity for this workspace.''
               else ''LINEAR_API_TOKEN not found in env or args''))"
    using h n by (simp add: m run_command_def and_then_def Let_def)
next
  assume h: "arg_command a \<noteq> Init \<and> load_config rt w (arg_config a) = JObject config
       \<and> loaded_env w a config = Inr env_data
       \<and> py_or (dict_get config ''authMode'' JNull) (JString ''token'') \<noteq> JString ''mcp''
       \<and> first_non_empty [arg_token a, environ w ''LINEAR_API_TOKEN'',
                           map_of env_data ''LINEAR_API_TOKEN''] = Some t"
  then have m: "main rt a w = run_command rt a config w" using main_command by blast
  have r: "resolve_token a w env_data = Some t" using h resolve_token_first by blast
  have "t \<noteq> []" using h first_non_empty_truthy by blast
  then show "main rt a w = dispatch rt a config w t (extra_headers_of a)"
    using h by (simp add: m run_command_def and_then_def Let_def r truthy_str_def arg_text_def)
qed

theorem credential_precedence_witness:
  "resolve_token (sample_args\<lparr>arg_token := Some ''from-arg''\<rparr>)
      (sample_world [] [(''LINEAR_API_TOKEN'', ''from-environ'')])
      [(''LINEAR_API_TOKEN'', ''from-file'')] = Some ''from-arg''
   \<and> resolve_token sample_args
      (sample_world [] [(''LINEAR_API_TOKEN'', ''from-environ'')])
      [(''LINEAR_API_TOKEN'', ''from-file'')] = Some ''from-environ''
   \<and> resolve_token (sample_args\<lparr>arg_token := Some []\<rparr>)
      (sample_world [] [(''LINEAR_API_TOKEN'', [])])
      [(''LINEAR_API_TOKEN'', ''from-file'')] = Some ''from-file''
   \<and> \<not> truthy_str (resolve_token sample_args (sample_world [] []) [(''LINEAR_API_TOKEN'', [])])
   \<and> loaded_env (sample_world [] []) sample_args [] = Inr []
   \<and> main sample_runtime sample_args (sample_world [] [])
      = Inl (RuntimeError ''LINEAR_API_TOKEN not found in env or args'')
   \<and> loaded_env (sample_world [(''.env'', ''LINEAR_API_TOKEN=from-file'')] []) sample_args []
      = Inr [(''LINEAR_API_TOKEN'', ''from-file'')]
   \<and> main sample_runtime sample_args
        (sample_world [(''.env'', ''LINEAR_API_TOKEN=from-file'')] [])
      = dispatch sample_runtime sample_args []
          (sample_world [(''.env'', ''LINEAR_API_TOKEN=from-file'')] []) ''from-file''
          (extra_headers_of sample_args)"
proof -
  let ?K = "''LINEAR_API_TOKEN''"
  let ?w0 = "sample_world [] []"
  let ?w1 = "sample_world [(''.env'', ''LINEAR_API_TOKEN=from-file'')] []"
  have f1: "first_non_empty [arg_token (sample_args\<lparr>arg_token := Some ''from-arg''\<rparr>),
              environ (sample_world [] [(?K, ''from-environ'')]) ?K,
              map_of [(?K, ''from-file'')] ?K] = Some ''from-arg''"
    by (simp add: sample_args_def sample_world_def)
  have f2: "first_non_empty [arg_token sample_args,
              environ (sample_world [] [(?K, ''from-environ'')]) ?K,
              map_of [(?K, ''from-file'')] ?K] = Some ''from-environ''"
    by (simp add: sample_args_def sample_world_def)
  have f3: "first_non_empty [arg_token (sample_args\<lparr>arg_token := Some []\<rparr>),
              environ (sample_world [] [(?K, [])]) ?K,
              map_of [(?K, ''from-file'')] ?K] = Some ''from-file''"
    by (simp add: sample_args_def sample_world_def)
  have f4: "first_non_empty [arg_token sample_args, environ ?w0 ?K, map_of [(?K, [])] ?K] = None"
    by (simp add: sample_args_def sample_world_def)
  have f5: "first_non_empty [arg_token sample_args, environ ?w0 ?K, map_of [] ?K] = None"
    by (simp add: sample_args_def sample_world_def)
  have f6: "first_non_empty [arg_token sample_args, environ ?w1 ?K,
              map_of [(?K, ''from-file'')] ?K] = Some ''from-file''"
    by (simp add: sample_args_def sample_world_def)
  have c: "arg_command sample_args \<noteq> Init" by (simp add: sample_args_def)
  have l0: "load_config sample_runtime ?w0 (arg_config sample_args) = JObject []"
    and l1: "load_config sample_runtime ?w1 (arg_config sample_args) = JObject []"
    by (simp_all add: load_config_def sample_args_def sample_world_def)
  have e0: "loaded_env ?w0 sample_args [] = Inr []"
    by (simp add: loaded_env_def resolve_env_path_def and_then_def sample_args_def
          sample_world_def truthy_str_def dict_get_def)
  have e1: "loaded_env ?w1 sample_args [] = Inr [(?K, ''from-file'')]"
    by (simp add: loaded_env_def resolve_env_path_def and_then_def sample_args_def
          sample_world_def truthy_str_def dict_get_def load_env_file_def splitlines_def
          is_linebreak_def env_line_def env_body_def strip_defs startswith_def)
  have m: "py_or (dict_get [] ''authMode'' JNull) (JString ''token'') \<noteq> JString ''mcp''"
    by (simp add: py_or_def dict_get_def)
  show ?thesis
    using f1 f2 f3 f4 f5 f6 c l0 l1 e0 e1 m
      credential_precedence [where a = "sample_args\<lparr>arg_token := Some ''from-arg''\<rparr>"
        and w = "sample_world [] [(?K, ''from-environ'')]"
        and env_data = "[(?K, ''from-file'')]" and t = "''from-arg''"]
      credential_precedence [where a = sample_args
        and w = "sample_world [] [(?K, ''from-environ'')]"
        and env_data = "[(?K, ''from-file'')]" and t = "''from-environ''"]
      credential_precedence [where a = "sample_args\<lparr>arg_token := Some []\<rparr>"
        and w = "sample_world [] [(?K, [])]"
        and env_data = "[(?K, ''from-file'')]" and t = "''from-file''"]
      credential_precedence [where a = sample_args and w = ?w0 and env_data = "[(?K, [])]"]
      credential_precedence [where a = sample_args and w = ?w0 and env_data = "[]"
        and rt = sample_runtime and config = "[]"]
      credential_precedence [where a = sample_args and w = ?w1
        and env_data = "[(?K, ''from-file'')]" and t = "''from-file''"
        and rt = sample_runtime and config = "[]"]
    by simp
qed

end
